theory Spec2Isabelle
  imports Main "HOL-Library.Word"
begin

unbundle bit_operations_syntax

section \<open>Data model of package z80\<close>

type_synonym byte = "8 word"
type_synonym uint16 = "16 word"
type_synonym uint64 = "64 word"

text \<open>\<^verbatim>\<open>type CPUMode int\<close> with \<^verbatim>\<open>ModeZ80 = iota\<close> and \<^verbatim>\<open>Mode8080\<close>.\<close>

type_synonym CPUMode = int

definition ModeZ80 :: CPUMode where
  "ModeZ80 = 0"

definition Mode8080 :: CPUMode where
  "Mode8080 = 1"

text \<open>The flag masks, \<^verbatim>\<open>uint16\<close> constants \<^verbatim>\<open>1 << k\<close>.\<close>

definition carry :: uint16 where
  "carry = push_bit 0 1"

definition addsub :: uint16 where
  "addsub = push_bit 1 1"

definition parity :: uint16 where
  "parity = push_bit 2 1"

definition unused :: uint16 where
  "unused = push_bit 3 1"

definition halfCarry :: uint16 where
  "halfCarry = push_bit 4 1"

definition unused2 :: uint16 where
  "unused2 = push_bit 5 1"

definition zero :: uint16 where
  "zero = push_bit 6 1"

definition sign :: uint16 where
  "sign = push_bit 7 1"

text \<open>
  Modelled from the spec: the bus (package \<^verbatim>\<open>bus\<close>, imported by \<^verbatim>\<open>z80.go\<close>) is
  a byte-addressable 16-bit memory space plus an independent 8-bit-addressed IO space,
  with the four operations read/write a memory byte and read/write an IO port.
  The CPU holds a pointer to it; here the bus contents are a field of the CPU state.
\<close>

record bus =
  mem :: "uint16 \<Rightarrow> byte"
  io :: "byte \<Rightarrow> byte"

definition Read :: "bus \<Rightarrow> uint16 \<Rightarrow> byte" where
  "Read b a = mem b a"

definition Write :: "bus \<Rightarrow> uint16 \<Rightarrow> byte \<Rightarrow> bus" where
  "Write b a v = b\<lparr>mem := (mem b)(a := v)\<rparr>"

definition IORead :: "bus \<Rightarrow> byte \<Rightarrow> byte" where
  "IORead b p = io b p"

definition IOWrite :: "bus \<Rightarrow> byte \<Rightarrow> byte \<Rightarrow> bus" where
  "IOWrite b p v = b\<lparr>io := (io b)(p := v)\<rparr>"

text \<open>The struct \<^verbatim>\<open>z80\<close>.\<close>

record z80 =
  af :: uint16
  bc :: uint16
  de :: uint16
  hl :: uint16
  ix :: uint16
  iy :: uint16
  pc :: uint16
  sp :: uint16
  bus :: bus
  totalCycles :: uint64
  mode :: CPUMode

section \<open>Flag helpers\<close>

definition evalZ :: "byte \<Rightarrow> z80 \<Rightarrow> z80" where
  "evalZ src z =
     (if src = 0x00 then z\<lparr>af := af z OR zero\<rparr>
      else z\<lparr>af := af z AND NOT zero\<rparr>)"

definition evalS :: "byte \<Rightarrow> z80 \<Rightarrow> z80" where
  "evalS src z =
     (if src AND 0x80 = 0x80 then z\<lparr>af := af z OR sign\<rparr>
      else z\<lparr>af := af z AND NOT sign\<rparr>)"

definition evalH :: "byte \<Rightarrow> byte \<Rightarrow> z80 \<Rightarrow> z80" where
  "evalH src increment z =
     (let h = ((src AND 0x0f) + (increment AND 0x0f)) AND 0x10
      in if h \<noteq> 0 then z\<lparr>af := af z OR halfCarry\<rparr>
         else z\<lparr>af := af z AND NOT halfCarry\<rparr>)"

text \<open>
  Modelled from the spec: the operand-kind tags of an opcode descriptor (none, register,
  register-indirect, immediate, immediate-extended, indirect, extended, relative
  displacement, condition code). The declaration is not in \<^verbatim>\<open>z80.go\<close>; the eight
  names other than \<open>none\<close> are the ones \<^verbatim>\<open>DisassembleComponents\<close> switches on.
\<close>

datatype addressing =
  none | register | registerIndirect | immediate | immediateExtended
  | indirect | extended | displacement | condition

text \<open>
  Modelled from the spec: the opcode descriptor, with the fields \<^verbatim>\<open>z80.go\<close> reads.
  \<^verbatim>\<open>noBytes\<close> is added to the \<^verbatim>\<open>uint16\<close> program counter and \<^verbatim>\<open>noCycles\<close> to the
  \<^verbatim>\<open>uint64\<close> cycle counter; \<^verbatim>\<open>mnemonic\<close>, \<^verbatim>\<open>dstR\<close> and \<^verbatim>\<open>srcR\<close> are indexed by the mode.
\<close>

record opcode =
  mnemonic :: "string list"
  dst :: addressing
  src :: addressing
  dstR :: "string list"
  srcR :: "string list"
  noBytes :: uint16
  noCycles :: uint64
  multiByte :: bool

text \<open>
  The four descriptor tables \<^verbatim>\<open>opcodes\<close>, \<^verbatim>\<open>opcodesDD\<close>, \<^verbatim>\<open>opcodesED\<close> and
  \<^verbatim>\<open>opcodesFD\<close> are declared outside \<^verbatim>\<open>z80.go\<close>. They are indexed by a byte; here a
  table is a function from bytes to descriptors (one entry for each byte value), and the
  four tables are a parameter of every function that reads them.
\<close>

record tables =
  opcodes :: "byte \<Rightarrow> opcode"
  opcodesDD :: "byte \<Rightarrow> opcode"
  opcodesED :: "byte \<Rightarrow> opcode"
  opcodesFD :: "byte \<Rightarrow> opcode"

text \<open>
  The errors \<^verbatim>\<open>Step\<close> returns: the two sentinels, and the value built by
  \<^verbatim>\<open>fmt.Errorf("invalid instruction: 0x%02x @ 0x%04x", opc, z.pc)\<close>, kept as its two
  arguments.
\<close>

datatype error =
  ErrHalt
  | ErrInvalidInstruction
  | Errorf_invalid_instruction byte uint16

section \<open>The post-instruction step and the 8-bit increments\<close>

definition genericPostInstruction :: "opcode \<Rightarrow> z80 \<Rightarrow> z80" where
  "genericPostInstruction oc z =
     (let z = z\<lparr>totalCycles := totalCycles z + noCycles oc\<rparr>;
          z = z\<lparr>pc := pc z + noBytes oc\<rparr>
      in z)"

text \<open>
  \<^verbatim>\<open>inc8L\<close> and \<^verbatim>\<open>inc8H\<close> take a pointer to a \<^verbatim>\<open>uint16\<close>; \<^verbatim>\<open>Step\<close> passes the address
  of a register of the same CPU. The pointer is modelled as the name of the register it
  points to, so that a pointer to \<^verbatim>\<open>z.af\<close> aliases the flags the function updates.
\<close>

datatype reg16 = AF | BC | DE | HL | IX | IY | PC | SP

fun load :: "reg16 \<Rightarrow> z80 \<Rightarrow> uint16" where
  "load AF z = af z"
| "load BC z = bc z"
| "load DE z = de z"
| "load HL z = hl z"
| "load IX z = ix z"
| "load IY z = iy z"
| "load PC z = pc z"
| "load SP z = sp z"

fun store :: "reg16 \<Rightarrow> uint16 \<Rightarrow> z80 \<Rightarrow> z80" where
  "store AF v z = z\<lparr>af := v\<rparr>"
| "store BC v z = z\<lparr>bc := v\<rparr>"
| "store DE v z = z\<lparr>de := v\<rparr>"
| "store HL v z = z\<lparr>hl := v\<rparr>"
| "store IX v z = z\<lparr>ix := v\<rparr>"
| "store IY v z = z\<lparr>iy := v\<rparr>"
| "store PC v z = z\<lparr>pc := v\<rparr>"
| "store SP v z = z\<lparr>sp := v\<rparr>"

definition inc8L :: "reg16 \<Rightarrow> z80 \<Rightarrow> z80" where
  "inc8L p z =
     (let oldB = (ucast (load p z AND 0x00ff) :: byte);
          newB = oldB + 1;
          z = store p (ucast newB OR (load p z AND 0xff00)) z;
          z = evalS newB z;
          z = evalZ newB z;
          z = (if oldB = 0x7f then z\<lparr>af := af z OR parity\<rparr>
               else z\<lparr>af := af z AND NOT parity\<rparr>);
          z = evalH oldB 1 z;
          z = z\<lparr>af := af z AND NOT addsub\<rparr>
      in z)"

definition inc8H :: "reg16 \<Rightarrow> z80 \<Rightarrow> z80" where
  "inc8H p z =
     (let oldB = (ucast (drop_bit 8 (load p z)) :: byte);
          newB = oldB + 1;
          z = store p (push_bit 8 (ucast newB) OR (load p z AND 0x00ff)) z;
          z = evalS newB z;
          z = evalZ newB z;
          z = (if oldB = 0x7f then z\<lparr>af := af z OR parity\<rparr>
               else z\<lparr>af := af z AND NOT parity\<rparr>);
          z = evalH oldB 1 z;
          z = z\<lparr>af := af z AND NOT addsub\<rparr>
      in z)"

section \<open>Step\<close>

text \<open>
  \<^verbatim>\<open>Step\<close> executes the instruction at \<^verbatim>\<open>z.pc\<close>. The Go method mutates the CPU and
  returns an error; the model returns the error (\<open>None\<close> for \<^verbatim>\<open>nil\<close>) together with
  the CPU state it leaves behind. A case that leaves the switch reaches
  \<^verbatim>\<open>pi(opcodeStruct)\<close>, that is \<open>genericPostInstruction\<close>, and returns \<^verbatim>\<open>nil\<close>; a case
  that returns inside the switch does not. The local variable \<^verbatim>\<open>pc\<close> of the return
  cases is written \<open>pc'\<close>.
\<close>

definition Step :: "tables \<Rightarrow> z80 \<Rightarrow> error option \<times> z80" where
  "Step T z =
    (let opc = Read (bus z) (pc z);
         opcodeStruct = opcodes T opc
     in
     if opc = 0x00 then
       (None, genericPostInstruction opcodeStruct z)
     else if opc = 0x01 then
       (let z = z\<lparr>bc := (ucast (Read (bus z) (pc z + 1)) :: uint16) OR (push_bit 8 (ucast (Read (bus z) (pc z + 2)) :: uint16))\<rparr>
        in (None, genericPostInstruction opcodeStruct z))
     else if opc = 0x02 then
       (let z = z\<lparr>bus := Write (bus z) (bc z) (ucast (drop_bit 8 (af z)) :: byte)\<rparr>
        in (None, genericPostInstruction opcodeStruct z))
     else if opc = 0x03 then
       (let z = z\<lparr>bc := bc z + 1\<rparr>
        in (None, genericPostInstruction opcodeStruct z))
     else if opc = 0x04 then
       (let z = inc8H BC z
        in (None, genericPostInstruction opcodeStruct z))
     else if opc = 0x06 then
       (let z = z\<lparr>bc := (push_bit 8 (ucast (Read (bus z) (pc z + 1)) :: uint16)) OR (bc z AND 0x00ff)\<rparr>
        in (None, genericPostInstruction opcodeStruct z))
     else if opc = 0x0a then
       (let z = z\<lparr>af := (push_bit 8 (ucast (Read (bus z) (bc z)) :: uint16)) OR (af z AND 0x00ff)\<rparr>
        in (None, genericPostInstruction opcodeStruct z))
     else if opc = 0x0b then
       (let z = z\<lparr>bc := bc z - 1\<rparr>
        in (None, genericPostInstruction opcodeStruct z))
     else if opc = 0x0e then
       (let z = z\<lparr>bc := (ucast (Read (bus z) (pc z + 1)) :: uint16) OR (bc z AND 0xff00)\<rparr>
        in (None, genericPostInstruction opcodeStruct z))
     else if opc = 0x11 then
       (let z = z\<lparr>de := (ucast (Read (bus z) (pc z + 1)) :: uint16) OR (push_bit 8 (ucast (Read (bus z) (pc z + 2)) :: uint16))\<rparr>
        in (None, genericPostInstruction opcodeStruct z))
     else if opc = 0x12 then
       (let z = z\<lparr>bus := Write (bus z) (de z) (ucast (drop_bit 8 (af z)) :: byte)\<rparr>
        in (None, genericPostInstruction opcodeStruct z))
     else if opc = 0x13 then
       (let z = z\<lparr>de := de z + 1\<rparr>
        in (None, genericPostInstruction opcodeStruct z))
     else if opc = 0x16 then
       (let z = z\<lparr>de := (push_bit 8 (ucast (Read (bus z) (pc z + 1)) :: uint16)) OR (de z AND 0x00ff)\<rparr>
        in (None, genericPostInstruction opcodeStruct z))
     else if opc = 0x18 then
       (let z = z\<lparr>pc := (pc z + 2) + (scast (Read (bus z) (pc z + 1)) :: uint16)\<rparr>;
            z = z\<lparr>totalCycles := totalCycles z + noCycles opcodeStruct\<rparr>
        in (None, z))
     else if opc = 0x1a then
       (let z = z\<lparr>af := (push_bit 8 (ucast (Read (bus z) (de z)) :: uint16)) OR (af z AND 0x00ff)\<rparr>
        in (None, genericPostInstruction opcodeStruct z))
     else if opc = 0x1b then
       (let z = z\<lparr>de := de z - 1\<rparr>
        in (None, genericPostInstruction opcodeStruct z))
     else if opc = 0x1e then
       (let z = z\<lparr>de := (ucast (Read (bus z) (pc z + 1)) :: uint16) OR (de z AND 0xff00)\<rparr>
        in (None, genericPostInstruction opcodeStruct z))
     else if opc = 0x21 then
       (let z = z\<lparr>hl := (ucast (Read (bus z) (pc z + 1)) :: uint16) OR (push_bit 8 (ucast (Read (bus z) (pc z + 2)) :: uint16))\<rparr>
        in (None, genericPostInstruction opcodeStruct z))
     else if opc = 0x23 then
       (let z = z\<lparr>hl := hl z + 1\<rparr>
        in (None, genericPostInstruction opcodeStruct z))
     else if opc = 0x26 then
       (let z = z\<lparr>hl := (push_bit 8 (ucast (Read (bus z) (pc z + 1)) :: uint16)) OR (hl z AND 0x00ff)\<rparr>
        in (None, genericPostInstruction opcodeStruct z))
     else if opc = 0x28 then
       (if (af z AND zero) = zero
        then (let z = z\<lparr>pc := (pc z + 2) + (scast (Read (bus z) (pc z + 1)) :: uint16)\<rparr>;
                  z = z\<lparr>totalCycles := totalCycles z + noCycles opcodeStruct\<rparr>
              in (None, z))
        else (let z = z\<lparr>totalCycles := totalCycles z + 7\<rparr>
              in (None, genericPostInstruction opcodeStruct z)))
     else if opc = 0x2b then
       (let z = z\<lparr>hl := hl z - 1\<rparr>
        in (None, genericPostInstruction opcodeStruct z))
     else if opc = 0x2e then
       (let z = z\<lparr>hl := (ucast (Read (bus z) (pc z + 1)) :: uint16) OR (hl z AND 0xff00)\<rparr>
        in (None, genericPostInstruction opcodeStruct z))
     else if opc = 0x2f then
       (let z = z\<lparr>af := (af z AND 0x00ff) OR ((NOT (af z)) AND 0xff00)\<rparr>;
            z = z\<lparr>af := af z OR halfCarry\<rparr>;
            z = z\<lparr>af := af z OR addsub\<rparr>
        in (None, genericPostInstruction opcodeStruct z))
     else if opc = 0x31 then
       (let z = z\<lparr>sp := (ucast (Read (bus z) (pc z + 1)) :: uint16) OR (push_bit 8 (ucast (Read (bus z) (pc z + 2)) :: uint16))\<rparr>
        in (None, genericPostInstruction opcodeStruct z))
     else if opc = 0x32 then
       (let z = z\<lparr>bus := Write (bus z) ((ucast (Read (bus z) (pc z + 1)) :: uint16) OR (push_bit 8 (ucast (Read (bus z) (pc z + 2)) :: uint16))) (ucast (drop_bit 8 (af z)) :: byte)\<rparr>
        in (None, genericPostInstruction opcodeStruct z))
     else if opc = 0x33 then
       (let z = z\<lparr>sp := sp z + 1\<rparr>
        in (None, genericPostInstruction opcodeStruct z))
     else if opc = 0x36 then
       (let z = z\<lparr>bus := Write (bus z) (hl z) (Read (bus z) (pc z + 1))\<rparr>
        in (None, genericPostInstruction opcodeStruct z))
     else if opc = 0x37 then
       (let z = z\<lparr>af := af z AND NOT halfCarry\<rparr>;
            z = z\<lparr>af := af z AND NOT addsub\<rparr>;
            z = z\<lparr>af := af z OR carry\<rparr>
        in (None, genericPostInstruction opcodeStruct z))
     else if opc = 0x3f then
       (let z = (if (af z AND carry) = carry
                 then (let z = z\<lparr>af := af z OR halfCarry\<rparr>;
                           z = z\<lparr>af := af z AND NOT carry\<rparr>
                       in z)
                 else (let z = z\<lparr>af := af z AND NOT halfCarry\<rparr>;
                           z = z\<lparr>af := af z OR carry\<rparr>
                       in z));
            z = z\<lparr>af := af z AND NOT addsub\<rparr>
        in (None, genericPostInstruction opcodeStruct z))
     else if opc = 0x3a then
       (let z = z\<lparr>af := push_bit 8 (ucast (Read (bus z) ((ucast (Read (bus z) (pc z + 1)) :: uint16) OR (push_bit 8 (ucast (Read (bus z) (pc z + 2)) :: uint16)))) :: uint16)\<rparr>
        in (None, genericPostInstruction opcodeStruct z))
     else if opc = 0x3b then
       (let z = z\<lparr>sp := sp z - 1\<rparr>
        in (None, genericPostInstruction opcodeStruct z))
     else if opc = 0x3c then
       (let z = inc8L AF z
        in (None, genericPostInstruction opcodeStruct z))
     else if opc = 0x3e then
       (let z = z\<lparr>af := (push_bit 8 (ucast (Read (bus z) (pc z + 1)) :: uint16)) OR (af z AND 0x00ff)\<rparr>
        in (None, genericPostInstruction opcodeStruct z))
     else if opc = 0x40 then
       (None, genericPostInstruction opcodeStruct z)
     else if opc = 0x41 then
       (let z = z\<lparr>bc := (bc z AND 0x00ff) OR (push_bit 8 (bc z))\<rparr>
        in (None, genericPostInstruction opcodeStruct z))
     else if opc = 0x42 then
       (let z = z\<lparr>bc := (bc z AND 0x00ff) OR (de z AND 0xff00)\<rparr>
        in (None, genericPostInstruction opcodeStruct z))
     else if opc = 0x43 then
       (let z = z\<lparr>bc := (bc z AND 0x00ff) OR (push_bit 8 (de z))\<rparr>
        in (None, genericPostInstruction opcodeStruct z))
     else if opc = 0x44 then
       (let z = z\<lparr>bc := (bc z AND 0x00ff) OR (hl z AND 0xff00)\<rparr>
        in (None, genericPostInstruction opcodeStruct z))
     else if opc = 0x45 then
       (let z = z\<lparr>bc := (bc z AND 0x00ff) OR (push_bit 8 (hl z))\<rparr>
        in (None, genericPostInstruction opcodeStruct z))
     else if opc = 0x46 then
       (let z = z\<lparr>bc := (push_bit 8 (ucast (Read (bus z) (hl z)) :: uint16)) OR (bc z AND 0x00ff)\<rparr>
        in (None, genericPostInstruction opcodeStruct z))
     else if opc = 0x47 then
       (let z = z\<lparr>bc := (af z AND 0xff00) OR (bc z AND 0x00ff)\<rparr>
        in (None, genericPostInstruction opcodeStruct z))
     else if opc = 0x48 then
       (let z = z\<lparr>bc := (drop_bit 8 (bc z)) OR (bc z AND 0xff00)\<rparr>
        in (None, genericPostInstruction opcodeStruct z))
     else if opc = 0x49 then
       (None, genericPostInstruction opcodeStruct z)
     else if opc = 0x4a then
       (let z = z\<lparr>bc := (bc z AND 0xff00) OR (drop_bit 8 (de z))\<rparr>
        in (None, genericPostInstruction opcodeStruct z))
     else if opc = 0x4b then
       (let z = z\<lparr>bc := (bc z AND 0xff00) OR (de z AND 0x00ff)\<rparr>
        in (None, genericPostInstruction opcodeStruct z))
     else if opc = 0x4c then
       (let z = z\<lparr>bc := (bc z AND 0xff00) OR (drop_bit 8 (hl z))\<rparr>
        in (None, genericPostInstruction opcodeStruct z))
     else if opc = 0x4d then
       (let z = z\<lparr>bc := (bc z AND 0xff00) OR (hl z AND 0x00ff)\<rparr>
        in (None, genericPostInstruction opcodeStruct z))
     else if opc = 0x4e then
       (let z = z\<lparr>bc := (ucast (Read (bus z) (hl z)) :: uint16) OR (bc z AND 0xff00)\<rparr>
        in (None, genericPostInstruction opcodeStruct z))
     else if opc = 0x4f then
       (let z = z\<lparr>bc := (bc z AND 0xff00) OR (drop_bit 8 (af z))\<rparr>
        in (None, genericPostInstruction opcodeStruct z))
     else if opc = 0x50 then
       (let z = z\<lparr>de := (bc z AND 0xff00) OR (de z AND 0x00ff)\<rparr>
        in (None, genericPostInstruction opcodeStruct z))
     else if opc = 0x51 then
       (let z = z\<lparr>de := (push_bit 8 (bc z)) OR (de z AND 0x00ff)\<rparr>
        in (None, genericPostInstruction opcodeStruct z))
     else if opc = 0x52 then
       (None, genericPostInstruction opcodeStruct z)
     else if opc = 0x53 then
       (let z = z\<lparr>de := (de z AND 0x00ff) OR (push_bit 8 (de z))\<rparr>
        in (None, genericPostInstruction opcodeStruct z))
     else if opc = 0x54 then
       (let z = z\<lparr>de := (hl z AND 0xff00) OR (de z AND 0x00ff)\<rparr>
        in (None, genericPostInstruction opcodeStruct z))
     else if opc = 0x55 then
       (let z = z\<lparr>de := (push_bit 8 (hl z)) OR (de z AND 0x00ff)\<rparr>
        in (None, genericPostInstruction opcodeStruct z))
     else if opc = 0x56 then
       (let z = z\<lparr>de := (push_bit 8 (ucast (Read (bus z) (hl z)) :: uint16)) OR (de z AND 0x00ff)\<rparr>
        in (None, genericPostInstruction opcodeStruct z))
     else if opc = 0x57 then
       (let z = z\<lparr>de := (af z AND 0xff00) OR (de z AND 0x00ff)\<rparr>
        in (None, genericPostInstruction opcodeStruct z))
     else if opc = 0x58 then
       (let z = z\<lparr>de := (drop_bit 8 (bc z)) OR (de z AND 0xff00)\<rparr>
        in (None, genericPostInstruction opcodeStruct z))
     else if opc = 0x59 then
       (let z = z\<lparr>de := (bc z AND 0x00ff) OR (de z AND 0xff00)\<rparr>
        in (None, genericPostInstruction opcodeStruct z))
     else if opc = 0x5a then
       (let z = z\<lparr>de := (drop_bit 8 (de z)) OR (de z AND 0xff00)\<rparr>
        in (None, genericPostInstruction opcodeStruct z))
     else if opc = 0x5b then
       (None, genericPostInstruction opcodeStruct z)
     else if opc = 0x5c then
       (let z = z\<lparr>de := (drop_bit 8 (hl z)) OR (de z AND 0xff00)\<rparr>
        in (None, genericPostInstruction opcodeStruct z))
     else if opc = 0x5d then
       (let z = z\<lparr>de := (hl z AND 0x00ff) OR (de z AND 0xff00)\<rparr>
        in (None, genericPostInstruction opcodeStruct z))
     else if opc = 0x5e then
       (let z = z\<lparr>de := (ucast (Read (bus z) (hl z)) :: uint16) OR (de z AND 0xff00)\<rparr>
        in (None, genericPostInstruction opcodeStruct z))
     else if opc = 0x5f then
       (let z = z\<lparr>de := (drop_bit 8 (af z)) OR (de z AND 0xff00)\<rparr>
        in (None, genericPostInstruction opcodeStruct z))
     else if opc = 0x60 then
       (let z = z\<lparr>hl := (hl z AND 0x00ff) OR (bc z AND 0xff00)\<rparr>
        in (None, genericPostInstruction opcodeStruct z))
     else if opc = 0x61 then
       (let z = z\<lparr>hl := (hl z AND 0x00ff) OR (push_bit 8 (bc z))\<rparr>
        in (None, genericPostInstruction opcodeStruct z))
     else if opc = 0x62 then
       (let z = z\<lparr>hl := (hl z AND 0x00ff) OR (de z AND 0xff00)\<rparr>
        in (None, genericPostInstruction opcodeStruct z))
     else if opc = 0x63 then
       (let z = z\<lparr>hl := (hl z AND 0x00ff) OR (push_bit 8 (de z))\<rparr>
        in (None, genericPostInstruction opcodeStruct z))
     else if opc = 0x64 then
       (None, genericPostInstruction opcodeStruct z)
     else if opc = 0x65 then
       (let z = z\<lparr>hl := (hl z AND 0x00ff) OR (push_bit 8 (hl z))\<rparr>
        in (None, genericPostInstruction opcodeStruct z))
     else if opc = 0x66 then
       (let z = z\<lparr>hl := (push_bit 8 (ucast (Read (bus z) (hl z)) :: uint16)) OR (hl z AND 0x00ff)\<rparr>
        in (None, genericPostInstruction opcodeStruct z))
     else if opc = 0x67 then
       (let z = z\<lparr>hl := (hl z AND 0x00ff) OR (af z AND 0xff00)\<rparr>
        in (None, genericPostInstruction opcodeStruct z))
     else if opc = 0x68 then
       (let z = z\<lparr>hl := (hl z AND 0xff00) OR (drop_bit 8 (bc z))\<rparr>
        in (None, genericPostInstruction opcodeStruct z))
     else if opc = 0x69 then
       (let z = z\<lparr>hl := (hl z AND 0xff00) OR (bc z AND 0x00ff)\<rparr>
        in (None, genericPostInstruction opcodeStruct z))
     else if opc = 0x6a then
       (let z = z\<lparr>hl := (hl z AND 0xff00) OR (drop_bit 8 (de z))\<rparr>
        in (None, genericPostInstruction opcodeStruct z))
     else if opc = 0x6b then
       (let z = z\<lparr>hl := (hl z AND 0xff00) OR (de z AND 0x00ff)\<rparr>
        in (None, genericPostInstruction opcodeStruct z))
     else if opc = 0x6c then
       (let z = z\<lparr>hl := (drop_bit 8 (hl z)) OR (hl z AND 0xff00)\<rparr>
        in (None, genericPostInstruction opcodeStruct z))
     else if opc = 0x6d then
       (None, genericPostInstruction opcodeStruct z)
     else if opc = 0x6e then
       (let z = z\<lparr>hl := (ucast (Read (bus z) (hl z)) :: uint16) OR (hl z AND 0xff00)\<rparr>
        in (None, genericPostInstruction opcodeStruct z))
     else if opc = 0x6f then
       (let z = z\<lparr>hl := (hl z AND 0xff00) OR (drop_bit 8 (af z))\<rparr>
        in (None, genericPostInstruction opcodeStruct z))
     else if opc = 0x70 then
       (let z = z\<lparr>bus := Write (bus z) (hl z) (ucast (drop_bit 8 (bc z)) :: byte)\<rparr>
        in (None, genericPostInstruction opcodeStruct z))
     else if opc = 0x71 then
       (let z = z\<lparr>bus := Write (bus z) (hl z) (ucast (bc z) :: byte)\<rparr>
        in (None, genericPostInstruction opcodeStruct z))
     else if opc = 0x72 then
       (let z = z\<lparr>bus := Write (bus z) (hl z) (ucast (drop_bit 8 (de z)) :: byte)\<rparr>
        in (None, genericPostInstruction opcodeStruct z))
     else if opc = 0x73 then
       (let z = z\<lparr>bus := Write (bus z) (hl z) (ucast (de z) :: byte)\<rparr>
        in (None, genericPostInstruction opcodeStruct z))
     else if opc = 0x74 then
       (let z = z\<lparr>bus := Write (bus z) (hl z) (ucast (drop_bit 8 (hl z)) :: byte)\<rparr>
        in (None, genericPostInstruction opcodeStruct z))
     else if opc = 0x75 then
       (let z = z\<lparr>bus := Write (bus z) (hl z) (ucast (hl z) :: byte)\<rparr>
        in (None, genericPostInstruction opcodeStruct z))
     else if opc = 0x76 then
       (let z = z\<lparr>totalCycles := totalCycles z + noCycles opcodeStruct\<rparr>
        in (Some ErrHalt, z))
     else if opc = 0x77 then
       (let z = z\<lparr>bus := Write (bus z) (hl z) (ucast (drop_bit 8 (af z)) :: byte)\<rparr>
        in (None, genericPostInstruction opcodeStruct z))
     else if opc = 0x78 then
       (let z = z\<lparr>af := (af z AND 0x00ff) OR (bc z AND 0xff00)\<rparr>
        in (None, genericPostInstruction opcodeStruct z))
     else if opc = 0x79 then
       (let z = z\<lparr>af := (af z AND 0x00ff) OR (push_bit 8 (bc z))\<rparr>
        in (None, genericPostInstruction opcodeStruct z))
     else if opc = 0x7a then
       (let z = z\<lparr>af := (af z AND 0x00ff) OR (de z AND 0xff00)\<rparr>
        in (None, genericPostInstruction opcodeStruct z))
     else if opc = 0x7b then
       (let z = z\<lparr>af := (af z AND 0x00ff) OR (push_bit 8 (de z))\<rparr>
        in (None, genericPostInstruction opcodeStruct z))
     else if opc = 0x7c then
       (let z = z\<lparr>af := (af z AND 0x00ff) OR (hl z AND 0xff00)\<rparr>
        in (None, genericPostInstruction opcodeStruct z))
     else if opc = 0x7d then
       (let z = z\<lparr>af := (af z AND 0x00ff) OR (push_bit 8 (hl z))\<rparr>
        in (None, genericPostInstruction opcodeStruct z))
     else if opc = 0x7e then
       (let z = z\<lparr>af := (push_bit 8 (ucast (Read (bus z) (hl z)) :: uint16)) OR (af z AND 0x00ff)\<rparr>
        in (None, genericPostInstruction opcodeStruct z))
     else if opc = 0x7f then
       (None, genericPostInstruction opcodeStruct z)
     else if opc = 0xa7 then
       (let a = (ucast (drop_bit 8 (af z)) :: byte);
            z = evalS a z;
            z = evalZ a z;
            z = z\<lparr>af := af z OR halfCarry\<rparr>;
            z = z\<lparr>af := af z AND NOT addsub\<rparr>;
            z = z\<lparr>af := af z AND NOT carry\<rparr>
        in (None, genericPostInstruction opcodeStruct z))
     else if opc = 0xbf then
       (let z = evalS ((ucast (drop_bit 8 (af z)) :: byte)) z;
            z = evalZ ((ucast (drop_bit 8 (af z)) :: byte)) z;
            z = z\<lparr>af := af z OR addsub\<rparr>
        in (None, genericPostInstruction opcodeStruct z))
     else if opc = 0xc1 then
       (let z = z\<lparr>bc := (ucast (Read (bus z) (sp z)) :: uint16) OR (bc z AND 0xff00)\<rparr>;
            z = z\<lparr>sp := sp z + 1\<rparr>;
            z = z\<lparr>bc := (push_bit 8 (ucast (Read (bus z) (sp z)) :: uint16)) OR (bc z AND 0x00ff)\<rparr>;
            z = z\<lparr>sp := sp z + 1\<rparr>
        in (None, genericPostInstruction opcodeStruct z))
     else if opc = 0xc2 then
       (if (af z AND zero) = 0
        then (let z = z\<lparr>pc := (ucast (Read (bus z) (pc z + 1)) :: uint16) OR (push_bit 8 (ucast (Read (bus z) (pc z + 2)) :: uint16))\<rparr>;
                  z = z\<lparr>totalCycles := totalCycles z + noCycles opcodeStruct\<rparr>
              in (None, z))
        else (None, genericPostInstruction opcodeStruct z))
     else if opc = 0xc3 then
       (let z = z\<lparr>pc := (ucast (Read (bus z) (pc z + 1)) :: uint16) OR (push_bit 8 (ucast (Read (bus z) (pc z + 2)) :: uint16))\<rparr>;
            z = z\<lparr>totalCycles := totalCycles z + noCycles opcodeStruct\<rparr>
        in (None, z))
     else if opc = 0xc5 then
       (let z = z\<lparr>sp := sp z - 1\<rparr>;
            z = z\<lparr>bus := Write (bus z) (sp z) (ucast (drop_bit 8 (bc z)) :: byte)\<rparr>;
            z = z\<lparr>sp := sp z - 1\<rparr>;
            z = z\<lparr>bus := Write (bus z) (sp z) (ucast (bc z) :: byte)\<rparr>
        in (None, genericPostInstruction opcodeStruct z))
     else if opc = 0xc8 then
       (if (af z AND zero) = zero
        then (let pc' = (ucast (Read (bus z) (sp z)) :: uint16);
                  z = z\<lparr>sp := sp z + 1\<rparr>;
                  pc' = (push_bit 8 (ucast (Read (bus z) (sp z)) :: uint16)) OR (pc' AND 0x00ff);
                  z = z\<lparr>sp := sp z + 1\<rparr>;
                  z = z\<lparr>totalCycles := totalCycles z + 11\<rparr>;
                  z = z\<lparr>pc := pc'\<rparr>
              in (None, z))
        else (None, genericPostInstruction opcodeStruct z))
     else if opc = 0xc9 then
       (let pc' = (ucast (Read (bus z) (sp z)) :: uint16);
            z = z\<lparr>sp := sp z + 1\<rparr>;
            pc' = (push_bit 8 (ucast (Read (bus z) (sp z)) :: uint16)) OR (pc' AND 0x00ff);
            z = z\<lparr>sp := sp z + 1\<rparr>;
            z = z\<lparr>totalCycles := totalCycles z + noCycles opcodeStruct\<rparr>;
            z = z\<lparr>pc := pc'\<rparr>
        in (None, z))
     else if opc = 0xca then
       (if (af z AND zero) = zero
        then (let z = z\<lparr>pc := (ucast (Read (bus z) (pc z + 1)) :: uint16) OR (push_bit 8 (ucast (Read (bus z) (pc z + 2)) :: uint16))\<rparr>;
                  z = z\<lparr>totalCycles := totalCycles z + noCycles opcodeStruct\<rparr>
              in (None, z))
        else (None, genericPostInstruction opcodeStruct z))
     else if opc = 0xcd then
       (let retPC = pc z + (noBytes opcodeStruct);
            z = z\<lparr>sp := sp z - 1\<rparr>;
            z = z\<lparr>bus := Write (bus z) (sp z) (ucast (drop_bit 8 retPC) :: byte)\<rparr>;
            z = z\<lparr>sp := sp z - 1\<rparr>;
            z = z\<lparr>bus := Write (bus z) (sp z) (ucast retPC :: byte)\<rparr>;
            z = z\<lparr>pc := (ucast (Read (bus z) (pc z + 1)) :: uint16) OR (push_bit 8 (ucast (Read (bus z) (pc z + 2)) :: uint16))\<rparr>;
            z = z\<lparr>totalCycles := totalCycles z + noCycles opcodeStruct\<rparr>
        in (None, z))
     else if opc = 0xd1 then
       (let z = z\<lparr>de := (ucast (Read (bus z) (sp z)) :: uint16) OR (de z AND 0xff00)\<rparr>;
            z = z\<lparr>sp := sp z + 1\<rparr>;
            z = z\<lparr>de := (push_bit 8 (ucast (Read (bus z) (sp z)) :: uint16)) OR (de z AND 0x00ff)\<rparr>;
            z = z\<lparr>sp := sp z + 1\<rparr>
        in (None, genericPostInstruction opcodeStruct z))
     else if opc = 0xd2 then
       (if (af z AND carry) = 0
        then (let z = z\<lparr>pc := (ucast (Read (bus z) (pc z + 1)) :: uint16) OR (push_bit 8 (ucast (Read (bus z) (pc z + 2)) :: uint16))\<rparr>;
                  z = z\<lparr>totalCycles := totalCycles z + noCycles opcodeStruct\<rparr>
              in (None, z))
        else (None, genericPostInstruction opcodeStruct z))
     else if opc = 0xd3 then
       (let z = z\<lparr>bus := IOWrite (bus z) (Read (bus z) (pc z + 1)) (ucast (drop_bit 8 (af z)) :: byte)\<rparr>
        in (None, genericPostInstruction opcodeStruct z))
     else if opc = 0xd5 then
       (let z = z\<lparr>sp := sp z - 1\<rparr>;
            z = z\<lparr>bus := Write (bus z) (sp z) (ucast (drop_bit 8 (de z)) :: byte)\<rparr>;
            z = z\<lparr>sp := sp z - 1\<rparr>;
            z = z\<lparr>bus := Write (bus z) (sp z) (ucast (de z) :: byte)\<rparr>
        in (None, genericPostInstruction opcodeStruct z))
     else if opc = 0xda then
       (if (af z AND carry) = carry
        then (let z = z\<lparr>pc := (ucast (Read (bus z) (pc z + 1)) :: uint16) OR (push_bit 8 (ucast (Read (bus z) (pc z + 2)) :: uint16))\<rparr>;
                  z = z\<lparr>totalCycles := totalCycles z + noCycles opcodeStruct\<rparr>
              in (None, z))
        else (None, genericPostInstruction opcodeStruct z))
     else if opc = 0xdb then
       (let z = z\<lparr>af := (push_bit 8 (ucast (IORead (bus z) (Read (bus z) (pc z + 1))) :: uint16)) OR (af z AND 0x00ff)\<rparr>
        in (None, genericPostInstruction opcodeStruct z))
     else if opc = 0xdd then
       (let byte2 = Read (bus z) (pc z + 1);
            opcodeStruct = opcodesDD T byte2
        in if byte2 = 0x23 then
             (let z = z\<lparr>ix := ix z + 1\<rparr>
              in (None, genericPostInstruction opcodeStruct z))
           else if byte2 = 0x2b then
             (let z = z\<lparr>ix := ix z - 1\<rparr>
              in (None, genericPostInstruction opcodeStruct z))
           else if byte2 = 0xe1 then
             (let z = z\<lparr>ix := (ucast (Read (bus z) (sp z)) :: uint16) OR (ix z AND 0xff00)\<rparr>;
                  z = z\<lparr>sp := sp z + 1\<rparr>;
                  z = z\<lparr>ix := (push_bit 8 (ucast (Read (bus z) (sp z)) :: uint16)) OR (ix z AND 0x00ff)\<rparr>;
                  z = z\<lparr>sp := sp z + 1\<rparr>
              in (None, genericPostInstruction opcodeStruct z))
           else if byte2 = 0xe5 then
             (let z = z\<lparr>sp := sp z - 1\<rparr>;
                  z = z\<lparr>bus := Write (bus z) (sp z) (ucast (drop_bit 8 (ix z)) :: byte)\<rparr>;
                  z = z\<lparr>sp := sp z - 1\<rparr>;
                  z = z\<lparr>bus := Write (bus z) (sp z) (ucast (ix z) :: byte)\<rparr>
              in (None, genericPostInstruction opcodeStruct z))
           else (Some ErrInvalidInstruction, z))
     else if opc = 0xe1 then
       (let z = z\<lparr>hl := (ucast (Read (bus z) (sp z)) :: uint16) OR (hl z AND 0xff00)\<rparr>;
            z = z\<lparr>sp := sp z + 1\<rparr>;
            z = z\<lparr>hl := (push_bit 8 (ucast (Read (bus z) (sp z)) :: uint16)) OR (hl z AND 0x00ff)\<rparr>;
            z = z\<lparr>sp := sp z + 1\<rparr>
        in (None, genericPostInstruction opcodeStruct z))
     else if opc = 0xe2 then
       (if (af z AND parity) = 0
        then (let z = z\<lparr>pc := (ucast (Read (bus z) (pc z + 1)) :: uint16) OR (push_bit 8 (ucast (Read (bus z) (pc z + 2)) :: uint16))\<rparr>;
                  z = z\<lparr>totalCycles := totalCycles z + noCycles opcodeStruct\<rparr>
              in (None, z))
        else (None, genericPostInstruction opcodeStruct z))
     else if opc = 0xe5 then
       (let z = z\<lparr>sp := sp z - 1\<rparr>;
            z = z\<lparr>bus := Write (bus z) (sp z) (ucast (drop_bit 8 (hl z)) :: byte)\<rparr>;
            z = z\<lparr>sp := sp z - 1\<rparr>;
            z = z\<lparr>bus := Write (bus z) (sp z) (ucast (hl z) :: byte)\<rparr>
        in (None, genericPostInstruction opcodeStruct z))
     else if opc = 0xe6 then
       (let a = (Read (bus z) (pc z + 1)) AND (ucast (drop_bit 8 (af z)) :: byte);
            z = z\<lparr>af := (push_bit 8 (ucast a :: uint16)) OR (af z AND 0x00ff)\<rparr>;
            z = evalS a z;
            z = evalZ a z;
            z = z\<lparr>af := af z OR halfCarry\<rparr>;
            z = z\<lparr>af := af z AND NOT addsub\<rparr>;
            z = z\<lparr>af := af z AND NOT carry\<rparr>
        in (None, genericPostInstruction opcodeStruct z))
     else if opc = 0xe9 then
       (let z = z\<lparr>pc := hl z\<rparr>;
            z = z\<lparr>totalCycles := totalCycles z + noCycles opcodeStruct\<rparr>
        in (None, z))
     else if opc = 0xea then
       (if (af z AND parity) = parity
        then (let z = z\<lparr>pc := (ucast (Read (bus z) (pc z + 1)) :: uint16) OR (push_bit 8 (ucast (Read (bus z) (pc z + 2)) :: uint16))\<rparr>;
                  z = z\<lparr>totalCycles := totalCycles z + noCycles opcodeStruct\<rparr>
              in (None, z))
        else (None, genericPostInstruction opcodeStruct z))
     else if opc = 0xeb then
       (let t = hl z;
            z = z\<lparr>hl := de z\<rparr>;
            z = z\<lparr>de := t\<rparr>
        in (None, genericPostInstruction opcodeStruct z))
     else if opc = 0xed then
       (let byte2 = Read (bus z) (pc z + 1);
            opcodeStruct = opcodesED T byte2
        in if byte2 = 0x44 then
             (let oldA = (ucast (drop_bit 8 (af z AND 0xff00)) :: byte);
                  newA = 0 - oldA;
                  z = z\<lparr>af := push_bit 8 (ucast newA :: uint16)\<rparr>;
                  z = evalS newA z;
                  z = evalZ newA z;
                  z = (if oldA = 0x80
                       then (let z = z\<lparr>af := af z OR parity\<rparr>
                             in z)
                       else (let z = z\<lparr>af := af z AND NOT parity\<rparr>
                             in z));
                  z = z\<lparr>af := af z OR addsub\<rparr>;
                  z = (if oldA \<noteq> 0x00
                       then (let z = z\<lparr>af := af z OR carry\<rparr>
                             in z)
                       else (let z = z\<lparr>af := af z AND NOT carry\<rparr>
                             in z))
              in (None, genericPostInstruction opcodeStruct z))
           else (Some ErrInvalidInstruction, z))
     else if opc = 0xf1 then
       (let z = z\<lparr>af := (ucast (Read (bus z) (sp z)) :: uint16) OR (af z AND 0xff00)\<rparr>;
            z = z\<lparr>sp := sp z + 1\<rparr>;
            z = z\<lparr>af := (push_bit 8 (ucast (Read (bus z) (sp z)) :: uint16)) OR (af z AND 0x00ff)\<rparr>;
            z = z\<lparr>sp := sp z + 1\<rparr>
        in (None, genericPostInstruction opcodeStruct z))
     else if opc = 0xf2 then
       (if (af z AND sign) = 0
        then (let z = z\<lparr>pc := (ucast (Read (bus z) (pc z + 1)) :: uint16) OR (push_bit 8 (ucast (Read (bus z) (pc z + 2)) :: uint16))\<rparr>;
                  z = z\<lparr>totalCycles := totalCycles z + noCycles opcodeStruct\<rparr>
              in (None, z))
        else (None, genericPostInstruction opcodeStruct z))
     else if opc = 0xf5 then
       (let z = z\<lparr>sp := sp z - 1\<rparr>;
            z = z\<lparr>bus := Write (bus z) (sp z) (ucast (drop_bit 8 (af z)) :: byte)\<rparr>;
            z = z\<lparr>sp := sp z - 1\<rparr>;
            z = z\<lparr>bus := Write (bus z) (sp z) (ucast (af z) :: byte)\<rparr>
        in (None, genericPostInstruction opcodeStruct z))
     else if opc = 0xfa then
       (if (af z AND sign) = sign
        then (let z = z\<lparr>pc := (ucast (Read (bus z) (pc z + 1)) :: uint16) OR (push_bit 8 (ucast (Read (bus z) (pc z + 2)) :: uint16))\<rparr>;
                  z = z\<lparr>totalCycles := totalCycles z + noCycles opcodeStruct\<rparr>
              in (None, z))
        else (None, genericPostInstruction opcodeStruct z))
     else if opc = 0xfd then
       (let byte2 = Read (bus z) (pc z + 1);
            opcodeStruct = opcodesFD T byte2
        in if byte2 = 0x23 then
             (let z = z\<lparr>iy := iy z + 1\<rparr>
              in (None, genericPostInstruction opcodeStruct z))
           else if byte2 = 0x2b then
             (let z = z\<lparr>iy := iy z - 1\<rparr>
              in (None, genericPostInstruction opcodeStruct z))
           else if byte2 = 0xe1 then
             (let z = z\<lparr>iy := (ucast (Read (bus z) (sp z)) :: uint16) OR (iy z AND 0xff00)\<rparr>;
                  z = z\<lparr>sp := sp z + 1\<rparr>;
                  z = z\<lparr>iy := (push_bit 8 (ucast (Read (bus z) (sp z)) :: uint16)) OR (iy z AND 0x00ff)\<rparr>;
                  z = z\<lparr>sp := sp z + 1\<rparr>
              in (None, genericPostInstruction opcodeStruct z))
           else if byte2 = 0xe5 then
             (let z = z\<lparr>sp := sp z - 1\<rparr>;
                  z = z\<lparr>bus := Write (bus z) (sp z) (ucast (drop_bit 8 (iy z)) :: byte)\<rparr>;
                  z = z\<lparr>sp := sp z - 1\<rparr>;
                  z = z\<lparr>bus := Write (bus z) (sp z) (ucast (iy z) :: byte)\<rparr>
              in (None, genericPostInstruction opcodeStruct z))
           else (Some ErrInvalidInstruction, z))
     else (Some (Errorf_invalid_instruction opc (pc z)), z))"

section \<open>DisassembleComponents\<close>

text \<open>\<^verbatim>\<open>fmt.Sprintf\<close> with the verbs \<^verbatim>\<open>%02x\<close> (a byte) and \<^verbatim>\<open>%04x\<close> (a \<^verbatim>\<open>uint16\<close>).\<close>

definition hexdigit :: "nat \<Rightarrow> char" where
  "hexdigit n = ''0123456789abcdef'' ! (n mod 16)"

definition hex02 :: "byte \<Rightarrow> string" where
  "hex02 b = [hexdigit (unat (drop_bit 4 b)), hexdigit (unat (b AND 0x0f))]"

definition hex04 :: "uint16 \<Rightarrow> string" where
  "hex04 w =
     [hexdigit (unat (drop_bit 12 w)), hexdigit (unat (drop_bit 8 w AND 0x0f)),
      hexdigit (unat (drop_bit 4 w AND 0x0f)), hexdigit (unat (w AND 0x0f))]"

text \<open>
  Indexing a slice by the mode panics outside its bounds; a panic is the value
  \<open>Inl IndexOutOfRange\<close>.
\<close>

datatype panic = IndexOutOfRange

definition index :: "'a list \<Rightarrow> int \<Rightarrow> panic + 'a" where
  "index xs i = (if 0 \<le> i \<and> i < int (length xs) then Inr (xs ! nat i) else Inl IndexOutOfRange)"

definition then_do :: "panic + 'a \<Rightarrow> ('a \<Rightarrow> panic + 'b) \<Rightarrow> panic + 'b" where
  "then_do r f = (case r of Inl e \<Rightarrow> Inl e | Inr v \<Rightarrow> f v)"

text \<open>
  The result is \<^verbatim>\<open>(opc, dst, src, noBytes)\<close>. The named results \<^verbatim>\<open>dst\<close> and
  \<^verbatim>\<open>src\<close> start as the empty string and keep it when no case of their switch matches.
\<close>

definition DisassembleComponents ::
  "tables \<Rightarrow> z80 \<Rightarrow> uint16 \<Rightarrow> panic + (string \<times> string \<times> string \<times> int)" where
  "DisassembleComponents T z address =
    (let oc = opcodes T (Read (bus z) address);
         oc = (if multiByte oc then
                 (if Read (bus z) address = 0xdd then opcodesDD T (Read (bus z) (address + 1))
                  else if Read (bus z) address = 0xed then opcodesED T (Read (bus z) (address + 1))
                  else if Read (bus z) address = 0xfd then opcodesFD T (Read (bus z) (address + 1))
                  else oc)
               else oc)
     in
     then_do
       (case dst oc of
          condition \<Rightarrow> index (dstR oc) (mode z)
        | displacement \<Rightarrow>
            Inr (''$'' @ hex04 (address + 2 + (scast (Read (bus z) (address + 1)) :: uint16)))
        | registerIndirect \<Rightarrow>
            (if mode z = Mode8080 then index (dstR oc) (mode z)
             else then_do (index (dstR oc) (mode z)) (\<lambda>r. Inr (''('' @ r @ '')'')))
        | immediate \<Rightarrow> Inr (''$'' @ hex02 (Read (bus z) (address + 1)))
        | immediateExtended \<Rightarrow>
            Inr (''$'' @ hex04 ((ucast (Read (bus z) (address + 1)) :: uint16)
                                OR push_bit 8 (ucast (Read (bus z) (address + 2)) :: uint16)))
        | register \<Rightarrow> index (dstR oc) (mode z)
        | indirect \<Rightarrow> Inr (''($'' @ hex02 (Read (bus z) (address + 1)) @ '')'')
        | _ \<Rightarrow> Inr [])
       (\<lambda>dst_text.
     then_do
       (case src oc of
          displacement \<Rightarrow>
            Inr (''$'' @ hex04 (address + 2 + (scast (Read (bus z) (address + 1)) :: uint16)))
        | registerIndirect \<Rightarrow>
            (if mode z = Mode8080 then index (srcR oc) (mode z)
             else then_do (index (srcR oc) (mode z)) (\<lambda>r. Inr (''('' @ r @ '')'')))
        | extended \<Rightarrow>
            Inr (''($'' @ hex04 ((ucast (Read (bus z) (address + 1)) :: uint16)
                                 OR push_bit 8 (ucast (Read (bus z) (address + 2)) :: uint16)) @ '')'')
        | immediate \<Rightarrow> Inr (''$'' @ hex02 (Read (bus z) (address + 1)))
        | immediateExtended \<Rightarrow>
            Inr (''$'' @ hex04 ((ucast (Read (bus z) (address + 1)) :: uint16)
                                OR push_bit 8 (ucast (Read (bus z) (address + 2)) :: uint16)))
        | register \<Rightarrow> index (srcR oc) (mode z)
        | indirect \<Rightarrow> Inr (''($'' @ hex02 (Read (bus z) (address + 1)) @ '')'')
        | _ \<Rightarrow> Inr [])
       (\<lambda>src_text.
     let noBytes_int = uint (noBytes oc)
     in if length (mnemonic oc) = 0 then Inr (''INVALID'', dst_text, src_text, 1)
        else then_do (index (mnemonic oc) (mode z))
               (\<lambda>opc_text. Inr (opc_text, dst_text, src_text, noBytes_int)))))"

section \<open>Which opcodes \<open>Step\<close> handles\<close>

text \<open>
  The first bytes whose case leaves the switch without a \<^verbatim>\<open>return\<close> and without touching
  \<^verbatim>\<open>z.pc\<close> or \<^verbatim>\<open>z.totalCycles\<close>: loads, exchanges, increments, flag operations, stack
  operations and port IO. They do not alter control flow.
\<close>

definition plain_opcodes :: "byte list" where
  "plain_opcodes =
     [0x00, 0x01, 0x02, 0x03, 0x04, 0x06, 0x0a, 0x0b, 0x0e,
      0x11, 0x12, 0x13, 0x16, 0x1a, 0x1b, 0x1e,
      0x21, 0x23, 0x26, 0x2b, 0x2e, 0x2f,
      0x31, 0x32, 0x33, 0x36, 0x37, 0x3f, 0x3a, 0x3b, 0x3c, 0x3e,
      0x40, 0x41, 0x42, 0x43, 0x44, 0x45, 0x46, 0x47, 0x48, 0x49, 0x4a, 0x4b, 0x4c, 0x4d, 0x4e, 0x4f,
      0x50, 0x51, 0x52, 0x53, 0x54, 0x55, 0x56, 0x57, 0x58, 0x59, 0x5a, 0x5b, 0x5c, 0x5d, 0x5e, 0x5f,
      0x60, 0x61, 0x62, 0x63, 0x64, 0x65, 0x66, 0x67, 0x68, 0x69, 0x6a, 0x6b, 0x6c, 0x6d, 0x6e, 0x6f,
      0x70, 0x71, 0x72, 0x73, 0x74, 0x75, 0x77, 0x78, 0x79, 0x7a, 0x7b, 0x7c, 0x7d, 0x7e, 0x7f,
      0xa7, 0xbf, 0xc1, 0xc5, 0xd1, 0xd3, 0xd5, 0xdb,
      0xe1, 0xe5, 0xe6, 0xeb, 0xf1, 0xf5]"

text \<open>
  The control-transfer first bytes: jumps, call, returns and halt. Each has a \<^verbatim>\<open>return\<close>
  inside its case.
\<close>

definition control_opcodes :: "byte list" where
  "control_opcodes =
     [0x18, 0x28, 0x76, 0xc2, 0xc3, 0xc8, 0xc9, 0xca, 0xcd, 0xd2, 0xda, 0xe2, 0xe9, 0xea, 0xf2, 0xfa]"

text \<open>The three prefix bytes, and the second bytes handled in the pages \<^verbatim>\<open>0xdd\<close> and \<^verbatim>\<open>0xfd\<close>
  (page \<^verbatim>\<open>0xed\<close> handles \<^verbatim>\<open>0x44\<close> only).\<close>

definition prefix_opcodes :: "byte list" where
  "prefix_opcodes = [0xdd, 0xed, 0xfd]"

definition index_opcodes :: "byte list" where
  "index_opcodes = [0x23, 0x2b, 0xe1, 0xe5]"

definition non_control_transfer :: "z80 \<Rightarrow> bool" where
  "non_control_transfer z =
     (let opc = Read (bus z) (pc z); byte2 = Read (bus z) (pc z + 1)
      in opc \<in> set plain_opcodes
         \<or> (opc = 0xdd \<and> byte2 \<in> set index_opcodes)
         \<or> (opc = 0xed \<and> byte2 = 0x44)
         \<or> (opc = 0xfd \<and> byte2 \<in> set index_opcodes))"

text \<open>The descriptor \<^verbatim>\<open>opcodeStruct\<close> points to when the switch is left.\<close>

definition descriptor :: "tables \<Rightarrow> z80 \<Rightarrow> opcode" where
  "descriptor T z =
     (let opc = Read (bus z) (pc z); byte2 = Read (bus z) (pc z + 1)
      in if opc = 0xdd then opcodesDD T byte2
         else if opc = 0xed then opcodesED T byte2
         else if opc = 0xfd then opcodesFD T byte2
         else opcodes T opc)"

text \<open>What an error value carries: the formatted error holds the opcode byte and the
  address, the sentinels hold nothing.\<close>

fun carried :: "error \<Rightarrow> (byte \<times> uint16) option" where
  "carried (Errorf_invalid_instruction b a) = Some (b, a)"
| "carried ErrHalt = None"
| "carried ErrInvalidInstruction = None"

fun invalid_instruction :: "error \<Rightarrow> bool" where
  "invalid_instruction (Errorf_invalid_instruction b a) = True"
| "invalid_instruction ErrInvalidInstruction = True"
| "invalid_instruction ErrHalt = False"

section \<open>Vocabulary of the stated properties\<close>

text \<open>The two bytes of a 16-bit value, the value of two bytes, and the 16-bit operand
  stored low byte first behind the opcode at an address.\<close>

definition high :: "uint16 \<Rightarrow> byte" where
  "high w = ucast (drop_bit 8 w)"

definition low :: "uint16 \<Rightarrow> byte" where
  "low w = ucast w"

definition word16 :: "byte \<Rightarrow> byte \<Rightarrow> uint16" where
  "word16 h l = push_bit 8 (ucast h) OR ucast l"

definition imm16 :: "bus \<Rightarrow> uint16 \<Rightarrow> uint16" where
  "imm16 b a = ucast (Read b (a + 1)) OR push_bit 8 (ucast (Read b (a + 2)))"

text \<open>A flag is set in a flag byte when the bit of its mask is 1. The flag byte is the
  low byte of \<^verbatim>\<open>af\<close>.\<close>

definition flag_set :: "uint16 \<Rightarrow> uint16 \<Rightarrow> bool" where
  "flag_set f m = (f AND m \<noteq> 0)"

definition flag_byte :: "z80 \<Rightarrow> byte" where
  "flag_byte z = ucast (af z)"

text \<open>The register pairs that have a push and a pop, with the instruction bytes of each,
  and the test that given bytes stand in memory from an address on.\<close>

definition stack_pairs :: "reg16 list" where
  "stack_pairs = [BC, DE, HL, AF, IX, IY]"

fun push_code :: "reg16 \<Rightarrow> byte list" where
  "push_code BC = [0xc5]"
| "push_code DE = [0xd5]"
| "push_code HL = [0xe5]"
| "push_code AF = [0xf5]"
| "push_code IX = [0xdd, 0xe5]"
| "push_code IY = [0xfd, 0xe5]"
| "push_code PC = []"
| "push_code SP = []"

fun pop_code :: "reg16 \<Rightarrow> byte list" where
  "pop_code BC = [0xc1]"
| "pop_code DE = [0xd1]"
| "pop_code HL = [0xe1]"
| "pop_code AF = [0xf1]"
| "pop_code IX = [0xdd, 0xe1]"
| "pop_code IY = [0xfd, 0xe1]"
| "pop_code PC = []"
| "pop_code SP = []"

primrec fetches :: "bus \<Rightarrow> uint16 \<Rightarrow> byte list \<Rightarrow> bool" where
  "fetches b a [] = True"
| "fetches b a (x # xs) = (Read b a = x \<and> fetches b (a + 1) xs)"

text \<open>The conditional absolute jumps \<^verbatim>\<open>jp nz\<close>, \<^verbatim>\<open>jp z\<close>, \<^verbatim>\<open>jp nc\<close>, \<^verbatim>\<open>jp c\<close>,
  \<^verbatim>\<open>jp po\<close>, \<^verbatim>\<open>jp pe\<close>, \<^verbatim>\<open>jp p\<close>, \<^verbatim>\<open>jp m\<close>, and the flag condition each conditional
  opcode names (\<^verbatim>\<open>0x28\<close> is \<^verbatim>\<open>jr z\<close>, \<^verbatim>\<open>0xc8\<close> is \<^verbatim>\<open>ret z\<close>).\<close>

definition jp_cc_opcodes :: "byte list" where
  "jp_cc_opcodes = [0xc2, 0xca, 0xd2, 0xda, 0xe2, 0xea, 0xf2, 0xfa]"

definition flag_condition :: "byte \<Rightarrow> uint16 \<Rightarrow> bool" where
  "flag_condition opc f =
     (if opc = 0x28 then flag_set f zero
      else if opc = 0xc2 then \<not> flag_set f zero
      else if opc = 0xc8 then flag_set f zero
      else if opc = 0xca then flag_set f zero
      else if opc = 0xd2 then \<not> flag_set f carry
      else if opc = 0xda then flag_set f carry
      else if opc = 0xe2 then \<not> flag_set f parity
      else if opc = 0xea then flag_set f parity
      else if opc = 0xf2 then \<not> flag_set f sign
      else if opc = 0xfa then flag_set f sign
      else False)"

text \<open>The loads and exchanges among the plain opcodes, other than \<^verbatim>\<open>ld a,(nn)\<close>.\<close>

definition other_load_opcodes :: "byte list" where
  "other_load_opcodes =
     [0x01, 0x02, 0x06, 0x0a, 0x0e, 0x11, 0x12, 0x16, 0x1a, 0x1e, 0x21, 0x26, 0x2e,
      0x31, 0x32, 0x36, 0x3e,
      0x40, 0x41, 0x42, 0x43, 0x44, 0x45, 0x46, 0x47, 0x48, 0x49, 0x4a, 0x4b, 0x4c, 0x4d, 0x4e, 0x4f,
      0x50, 0x51, 0x52, 0x53, 0x54, 0x55, 0x56, 0x57, 0x58, 0x59, 0x5a, 0x5b, 0x5c, 0x5d, 0x5e, 0x5f,
      0x60, 0x61, 0x62, 0x63, 0x64, 0x65, 0x66, 0x67, 0x68, 0x69, 0x6a, 0x6b, 0x6c, 0x6d, 0x6e, 0x6f,
      0x70, 0x71, 0x72, 0x73, 0x74, 0x75, 0x77, 0x78, 0x79, 0x7a, 0x7b, 0x7c, 0x7d, 0x7e, 0x7f,
      0xeb]"

text \<open>The descriptor \<^verbatim>\<open>DisassembleComponents\<close> formats: the base-page entry, or the
  prefix-page entry when the base-page entry is marked multi-byte.\<close>

definition resolved :: "tables \<Rightarrow> z80 \<Rightarrow> uint16 \<Rightarrow> opcode" where
  "resolved T z address =
     (let oc = opcodes T (Read (bus z) address)
      in if multiByte oc then
           (if Read (bus z) address = 0xdd then opcodesDD T (Read (bus z) (address + 1))
            else if Read (bus z) address = 0xed then opcodesED T (Read (bus z) (address + 1))
            else if Read (bus z) address = 0xfd then opcodesFD T (Read (bus z) (address + 1))
            else oc)
         else oc)"

text \<open>
  Modelled from the spec: a table position without an entry holds the zero value of the
  descriptor, which has no mnemonic and, for both operands, the kind none (the first kind
  the spec lists, and none of the kinds \<^verbatim>\<open>DisassembleComponents\<close> switches on).
\<close>

definition no_table_entry :: "opcode \<Rightarrow> bool" where
  "no_table_entry oc = (mnemonic oc = [] \<and> dst oc = none \<and> src oc = none)"

section \<open>Concrete machines\<close>

text \<open>A descriptor table with the same entry everywhere, and a cold CPU (as \<^verbatim>\<open>New\<close>
  returns it) on a bus whose memory holds a program at address 0 and zeroes elsewhere.
  Every entry of the example table says 3 bytes and 10 cycles, so the example programs
  place their instructions 3 bytes apart.\<close>

definition example_descriptor :: opcode where
  "example_descriptor =
     \<lparr>mnemonic = [''op'', ''op''], dst = none, src = none, dstR = [], srcR = [],
      noBytes = 3, noCycles = 10, multiByte = False\<rparr>"

definition example_tables :: tables where
  "example_tables =
     \<lparr>opcodes = (\<lambda>b. example_descriptor), opcodesDD = (\<lambda>b. example_descriptor),
      opcodesED = (\<lambda>b. example_descriptor), opcodesFD = (\<lambda>b. example_descriptor)\<rparr>"

definition cold :: "byte list \<Rightarrow> z80" where
  "cold prog =
     \<lparr>af = 0, bc = 0, de = 0, hl = 0, ix = 0, iy = 0, pc = 0, sp = 0,
      bus = \<lparr>mem = (\<lambda>a. if unat a < length prog then prog ! unat a else 0), io = (\<lambda>p. 0)\<rparr>,
      totalCycles = 0, mode = ModeZ80\<rparr>"

definition missing_descriptor :: opcode where
  "missing_descriptor =
     \<lparr>mnemonic = [], dst = none, src = none, dstR = [], srcR = [],
      noBytes = 0, noCycles = 0, multiByte = False\<rparr>"

definition sparse_tables :: tables where
  "sparse_tables =
     \<lparr>opcodes = (\<lambda>b. if b = 0x00 then example_descriptor else missing_descriptor),
      opcodesDD = (\<lambda>b. missing_descriptor), opcodesED = (\<lambda>b. missing_descriptor),
      opcodesFD = (\<lambda>b. missing_descriptor)\<rparr>"

definition inc_b_machine :: z80 where
  "inc_b_machine = (cold [0x04])\<lparr>bc := 0x7f00, af := carry\<rparr>"

definition push_pop_machine :: z80 where
  "push_pop_machine = (cold [0xc5, 0x00, 0x00, 0xc1])\<lparr>bc := 0x1234, sp := 0x0100\<rparr>"

definition call_ret_machine :: z80 where
  "call_ret_machine = (cold [0xcd, 0x05, 0x00, 0x00, 0x00, 0xc9])\<lparr>sp := 0x0100\<rparr>"

definition jp_nz_machine :: z80 where
  "jp_nz_machine = cold [0xc2, 0x10, 0x00]"

definition jp_nz_machine_zero_set :: z80 where
  "jp_nz_machine_zero_set = (cold [0xc2, 0x10, 0x00])\<lparr>af := zero\<rparr>"

definition ld_a_nn_machine :: z80 where
  "ld_a_nn_machine = (cold [0x3a, 0x00, 0x00])\<lparr>af := 0x00ff\<rparr>"

section \<open>Helper lemmas: words and flags\<close>

lemma ff_mask: "(0x00ff :: uint16) = mask 8"
  by (simp add: mask_eq_exp_minus_1)

lemma ff00_mask: "(0xff00 :: uint16) = push_bit 8 (mask 8)"
  by (simp add: mask_eq_exp_minus_1)

lemma pop_join:
  "push_bit 8 (ucast (h :: byte)) OR ((ucast (l :: byte) OR (v AND 0xff00)) AND 0x00ff) = word16 h l"
  unfolding ff_mask ff00_mask word16_def
  by (rule bit_word_eqI) (auto simp: bit_simps dest: bit_imp_le_length)

lemma ret_join:
  "push_bit 8 (ucast (h :: byte)) OR ((ucast (l :: byte) :: uint16) AND 0x00ff) = word16 h l"
  unfolding ff_mask word16_def
  by (rule bit_word_eqI) (auto simp: bit_simps dest: bit_imp_le_length)

lemma word16_high_low [simp]: "word16 (high w) (low w) = w"
  unfolding word16_def high_def low_def
  by (rule bit_word_eqI) (auto simp: bit_simps)

lemma Read_Write [simp]: "Read (Write b a v) a' = (if a' = a then v else Read b a')"
  by (simp add: Read_def Write_def)

lemma low_of_join:
  "(ucast (push_bit 8 (x :: uint16) OR (a AND 0x00ff)) :: byte) = ucast a"
  "(ucast ((a AND 0x00ff) OR push_bit 8 (x :: uint16)) :: byte) = ucast a"
  "(ucast ((a AND 0x00ff) OR (x AND 0xff00)) :: byte) = ucast (a :: uint16)"
  unfolding ff_mask ff00_mask
  by (rule bit_word_eqI; auto simp: bit_simps dest: bit_imp_le_length)+

lemma low_of_high: "(ucast (push_bit 8 (x :: uint16)) :: byte) = 0"
  by (rule bit_word_eqI) (auto simp: bit_simps dest: bit_imp_le_length)

lemma mask_or_same: "(x OR m) AND m = (m :: uint16)"
  by (rule bit_word_eqI) (auto simp: bit_simps)

lemma mask_andnot_same: "(x AND NOT m) AND m = (0 :: uint16)"
  by (rule bit_word_eqI) (auto simp: bit_simps)

lemma mask_or_other: "m AND m' = 0 \<Longrightarrow> (x OR m') AND m = x AND (m :: uint16)"
  by (metis bit.conj_disj_distrib2 and.commute or.right_neutral)

lemma mask_andnot_other: "m AND m' = 0 \<Longrightarrow> (x AND NOT m') AND m = x AND (m :: uint16)"
  by (rule bit_word_eqI) (auto simp: bit_simps bit_eq_iff)

lemmas flag_defs =
  carry_def addsub_def parity_def unused_def halfCarry_def unused2_def zero_def sign_def

lemma flag_disjoint:
  "carry AND addsub = 0" "carry AND parity = 0" "carry AND unused = 0" "carry AND halfCarry = 0"
  "carry AND unused2 = 0" "carry AND zero = 0" "carry AND sign = 0" "addsub AND carry = 0" "addsub
  AND parity = 0" "addsub AND unused = 0" "addsub AND halfCarry = 0" "addsub AND unused2 = 0"
  "addsub AND zero = 0" "addsub AND sign = 0" "parity AND carry = 0" "parity AND addsub = 0"
  "parity AND unused = 0" "parity AND halfCarry = 0" "parity AND unused2 = 0" "parity AND zero =
  0" "parity AND sign = 0" "unused AND carry = 0" "unused AND addsub = 0" "unused AND parity = 0"
  "unused AND halfCarry = 0" "unused AND unused2 = 0" "unused AND zero = 0" "unused AND sign = 0"
  "halfCarry AND carry = 0" "halfCarry AND addsub = 0" "halfCarry AND parity = 0" "halfCarry AND
  unused = 0" "halfCarry AND unused2 = 0" "halfCarry AND zero = 0" "halfCarry AND sign = 0"
  "unused2 AND carry = 0" "unused2 AND addsub = 0" "unused2 AND parity = 0" "unused2 AND unused =
  0" "unused2 AND halfCarry = 0" "unused2 AND zero = 0" "unused2 AND sign = 0" "zero AND carry =
  0" "zero AND addsub = 0" "zero AND parity = 0" "zero AND unused = 0" "zero AND halfCarry = 0"
  "zero AND unused2 = 0" "zero AND sign = 0" "sign AND carry = 0" "sign AND addsub = 0" "sign AND
  parity = 0" "sign AND unused = 0" "sign AND halfCarry = 0" "sign AND unused2 = 0" "sign AND zero
  = 0"
  by (simp_all add: flag_defs)

lemma low_bit:
  assumes "k < 8"
  shows "(a AND 0x00ff) AND push_bit k 1 = a AND push_bit k (1 :: uint16)"
  unfolding ff_mask using assms
  by (intro bit_word_eqI) (auto simp: bit_simps)

lemma high_bit:
  assumes "k < 8" and "x AND 0x00ff = 0"
  shows "(x OR y) AND push_bit k 1 = y AND push_bit k (1 :: uint16)"
proof -
  have "(x OR y) AND push_bit k 1 = ((x OR y) AND 0x00ff) AND push_bit k 1"
    using low_bit [OF assms(1), of "x OR y"] by simp
  also have "(x OR y) AND 0x00ff = y AND 0x00ff"
    using assms(2) by (simp add: bit.conj_disj_distrib2)
  finally show ?thesis
    using low_bit [OF assms(1), of y] by simp
qed

lemma shifted_bit:
  assumes "k < 8"
  shows "push_bit 8 x AND push_bit k (1 :: uint16) = 0"
  using assms by (intro bit_word_eqI) (auto simp: bit_simps)

lemma low_flag:
  "(a AND 0x00ff) AND carry = a AND carry" "(a AND 0x00ff) AND addsub = a AND addsub" "(a AND
  0x00ff) AND parity = a AND parity" "(a AND 0x00ff) AND unused = a AND unused" "(a AND 0x00ff)
  AND halfCarry = a AND halfCarry" "(a AND 0x00ff) AND unused2 = a AND unused2" "(a AND 0x00ff)
  AND zero = a AND zero" "(a AND 0x00ff) AND sign = a AND sign"
  unfolding flag_defs by (rule low_bit; simp)+

lemma high_flag:
  "x AND 0x00ff = 0 \<Longrightarrow> (x OR y) AND carry = y AND carry" "x AND 0x00ff = 0
  \<Longrightarrow> (x OR y) AND addsub = y AND addsub" "x AND 0x00ff = 0 \<Longrightarrow> (x OR
  y) AND parity = y AND parity" "x AND 0x00ff = 0 \<Longrightarrow> (x OR y) AND unused = y AND
  unused" "x AND 0x00ff = 0 \<Longrightarrow> (x OR y) AND halfCarry = y AND halfCarry" "x AND
  0x00ff = 0 \<Longrightarrow> (x OR y) AND unused2 = y AND unused2" "x AND 0x00ff = 0
  \<Longrightarrow> (x OR y) AND zero = y AND zero" "x AND 0x00ff = 0 \<Longrightarrow> (x OR y)
  AND sign = y AND sign"
  unfolding flag_defs by (rule high_bit; simp)+

lemma shifted_flag:
  "push_bit 8 x AND carry = 0" "push_bit 8 x AND addsub = 0" "push_bit 8 x AND parity = 0"
  "push_bit 8 x AND unused = 0" "push_bit 8 x AND halfCarry = 0" "push_bit 8 x AND unused2 = 0"
  "push_bit 8 x AND zero = 0" "push_bit 8 x AND sign = 0"
  unfolding flag_defs by (rule shifted_bit; simp)+

lemma high_only_flag:
  "x AND 0x00ff = 0 \<Longrightarrow> x AND carry = 0" "x AND 0x00ff = 0 \<Longrightarrow> x AND
  addsub = 0" "x AND 0x00ff = 0 \<Longrightarrow> x AND parity = 0" "x AND 0x00ff = 0
  \<Longrightarrow> x AND unused = 0" "x AND 0x00ff = 0 \<Longrightarrow> x AND halfCarry = 0" "x
  AND 0x00ff = 0 \<Longrightarrow> x AND unused2 = 0" "x AND 0x00ff = 0 \<Longrightarrow> x AND
  zero = 0" "x AND 0x00ff = 0 \<Longrightarrow> x AND sign = 0"
  using high_flag [of x 0] by simp_all

lemmas flag_algebra =
  mask_or_same mask_andnot_same mask_or_other mask_andnot_other
  flag_disjoint low_flag high_flag shifted_flag

lemma one_bit:
  assumes "k < 16"
  shows "x AND push_bit k 1 = push_bit k 1 \<longleftrightarrow> x AND push_bit k (1 :: uint16) \<noteq> 0"
proof -
  have sel: "x AND push_bit k 1 = (if bit x k then push_bit k 1 else 0)"
    by (rule bit_word_eqI) (auto simp: bit_simps)
  have "bit (push_bit k 1 :: uint16) k"
    using assms by (simp add: bit_simps)
  then have "push_bit k (1 :: uint16) \<noteq> 0"
    by (metis bit_0_eq bot_apply bot_bool_def)
  with sel show ?thesis
    by auto
qed

lemma flag_tests:
  "(f AND carry = carry) = flag_set f carry" "(f AND carry = 0) = (\<not> flag_set f carry)" "(f
  AND addsub = addsub) = flag_set f addsub" "(f AND addsub = 0) = (\<not> flag_set f addsub)" "(f
  AND parity = parity) = flag_set f parity" "(f AND parity = 0) = (\<not> flag_set f parity)" "(f
  AND unused = unused) = flag_set f unused" "(f AND unused = 0) = (\<not> flag_set f unused)" "(f
  AND halfCarry = halfCarry) = flag_set f halfCarry" "(f AND halfCarry = 0) = (\<not> flag_set f
  halfCarry)" "(f AND unused2 = unused2) = flag_set f unused2" "(f AND unused2 = 0) = (\<not>
  flag_set f unused2)" "(f AND zero = zero) = flag_set f zero" "(f AND zero = 0) = (\<not>
  flag_set f zero)" "(f AND sign = sign) = flag_set f sign" "(f AND sign = 0) = (\<not> flag_set f
  sign)"
  unfolding flag_set_def flag_defs
  by (simp_all only: one_bit simp_thms)

lemma low_and: "(ucast (w AND 0x00ff) :: byte) = low (w :: uint16)"
  unfolding ff_mask low_def
  by (rule bit_word_eqI) (auto simp: bit_simps dest: bit_imp_le_length)

lemma high_of_join: "high (push_bit 8 (ucast b) OR (w AND 0x00ff)) = b"
  unfolding ff_mask high_def
  by (rule bit_word_eqI) (auto simp: bit_simps dest: bit_imp_le_length)

lemma low_of_join_high: "low (push_bit 8 (ucast (b :: byte)) OR (w AND 0x00ff)) = low w"
  unfolding ff_mask low_def
  by (rule bit_word_eqI) (auto simp: bit_simps dest: bit_imp_le_length)

section \<open>Helper lemmas: the 8-bit increments\<close>

lemmas inc8_defs = inc8H_def inc8L_def Let_def evalS_def evalZ_def evalH_def

lemma inc8H_7f:
  assumes "high (load p z) = 0x7f"
  shows "af (inc8H p z) AND zero = 0 \<and> af (inc8H p z) AND sign = sign \<and>
         af (inc8H p z) AND halfCarry = halfCarry \<and> af (inc8H p z) AND parity = parity \<and>
         af (inc8H p z) AND addsub = 0 \<and> af (inc8H p z) AND carry = af z AND carry"
  by (cases p) (use assms in \<open>simp_all add: high_def inc8_defs flag_algebra\<close>)

lemma inc8H_ff:
  assumes "high (load p z) = 0xff"
  shows "af (inc8H p z) AND zero = zero"
  by (cases p) (use assms in \<open>simp_all add: high_def inc8_defs flag_algebra\<close>)

lemma inc8L_7f:
  assumes "low (load p z) = 0x7f" and "p \<noteq> AF"
  shows "af (inc8L p z) AND zero = 0 \<and> af (inc8L p z) AND sign = sign \<and>
         af (inc8L p z) AND halfCarry = halfCarry \<and> af (inc8L p z) AND parity = parity \<and>
         af (inc8L p z) AND addsub = 0 \<and> af (inc8L p z) AND carry = af z AND carry"
  by (cases p) (use assms in \<open>simp_all add: low_and inc8_defs flag_algebra\<close>)

lemma inc8L_ff:
  assumes "low (load p z) = 0xff"
  shows "af (inc8L p z) AND zero = zero"
  by (cases p) (use assms in \<open>simp_all add: low_and inc8_defs flag_algebra\<close>)

lemma bc_inc8H:
  "bc (inc8H BC z) = push_bit 8 (ucast (high (bc z) + 1)) OR (bc z AND 0x00ff)"
  by (simp add: inc8_defs high_def)

lemma inc_b_step:
  assumes "Read (bus z) (pc z) = 0x04"
  shows "af (snd (Step T z)) = af (inc8H BC z) \<and>
         high (bc (snd (Step T z))) = high (bc z) + 1 \<and>
         low (bc (snd (Step T z))) = low (bc z)"
proof -
  have "snd (Step T z) = genericPostInstruction (opcodes T 0x04) (inc8H BC z)"
    using assms by (simp add: Step_def Let_def)
  then have "af (snd (Step T z)) = af (inc8H BC z)"
    and "bc (snd (Step T z)) = bc (inc8H BC z)"
    by (simp_all add: genericPostInstruction_def)
  then show ?thesis
    by (simp add: bc_inc8H high_of_join low_of_join_high)
qed

text \<open>
  \<^verbatim>\<open>inc a\<close> (opcode \<^verbatim>\<open>0x3c\<close>) calls \<^verbatim>\<open>inc8L\<close> with a pointer to \<^verbatim>\<open>z.af\<close>, whose low
  byte is the flag byte itself: from the flag byte \<^verbatim>\<open>0x7f\<close> the carry flag does not
  survive.
\<close>

lemma inc8L_AF_aliases_flags: "af (inc8L AF ((cold [])\<lparr>af := 0x007f\<rparr>)) = 0x0094"
  by (simp add: cold_def inc8_defs flag_defs)

section \<open>Helper lemmas: single steps\<close>

lemma eval_keep [simp]:
  "pc (evalS b z) = pc z" "totalCycles (evalS b z) = totalCycles z"
  "pc (evalZ b z) = pc z" "totalCycles (evalZ b z) = totalCycles z"
  "pc (evalH b c z) = pc z" "totalCycles (evalH b c z) = totalCycles z"
  by (simp_all add: evalS_def evalZ_def evalH_def Let_def)

lemma inc8_keep [simp]:
  "pc (inc8H BC z) = pc z" "totalCycles (inc8H BC z) = totalCycles z"
  "pc (inc8L AF z) = pc z" "totalCycles (inc8L AF z) = totalCycles z"
  by (simp_all add: inc8H_def inc8L_def Let_def)

lemma plain_step:
  assumes "Read (bus z) (pc z) \<in> set plain_opcodes"
  shows "fst (Step T z) = None \<and>
         pc (snd (Step T z)) = pc z + noBytes (opcodes T (Read (bus z) (pc z))) \<and>
         totalCycles (snd (Step T z)) = totalCycles z + noCycles (opcodes T (Read (bus z) (pc z)))"
  using assms unfolding plain_opcodes_def
  apply (simp only: list.set insert_iff empty_iff)
  apply (elim disjE FalseE)
  apply (simp_all add: Step_def Let_def genericPostInstruction_def)
  done

lemma index_step_dd:
  assumes "Read (bus z) (pc z) = 0xdd" and "Read (bus z) (pc z + 1) \<in> set index_opcodes"
  shows "fst (Step T z) = None \<and>
         pc (snd (Step T z)) = pc z + noBytes (opcodesDD T (Read (bus z) (pc z + 1))) \<and>
         totalCycles (snd (Step T z)) = totalCycles z + noCycles (opcodesDD T (Read (bus z) (pc z + 1)))"
  using assms unfolding index_opcodes_def
  apply (simp only: list.set insert_iff empty_iff)
  apply (elim disjE FalseE)
  apply (simp_all add: Step_def Let_def genericPostInstruction_def)
  done

lemma index_step_fd:
  assumes "Read (bus z) (pc z) = 0xfd" and "Read (bus z) (pc z + 1) \<in> set index_opcodes"
  shows "fst (Step T z) = None \<and>
         pc (snd (Step T z)) = pc z + noBytes (opcodesFD T (Read (bus z) (pc z + 1))) \<and>
         totalCycles (snd (Step T z)) = totalCycles z + noCycles (opcodesFD T (Read (bus z) (pc z + 1)))"
  using assms unfolding index_opcodes_def
  apply (simp only: list.set insert_iff empty_iff)
  apply (elim disjE FalseE)
  apply (simp_all add: Step_def Let_def genericPostInstruction_def)
  done

lemma neg_step:
  assumes "Read (bus z) (pc z) = 0xed" and "Read (bus z) (pc z + 1) = 0x44"
  shows "fst (Step T z) = None \<and>
         pc (snd (Step T z)) = pc z + noBytes (opcodesED T 0x44) \<and>
         totalCycles (snd (Step T z)) = totalCycles z + noCycles (opcodesED T 0x44)"
  using assms by (simp add: Step_def Let_def genericPostInstruction_def)

lemma control_step:
  assumes "Read (bus z) (pc z) \<in> set control_opcodes"
  shows "fst (Step T z) = None \<or> fst (Step T z) = Some ErrHalt"
  using assms unfolding control_opcodes_def
  apply (simp only: list.set insert_iff empty_iff)
  apply (elim disjE FalseE)
  apply (simp_all add: Step_def Let_def)
  done

lemma unknown_first:
  assumes "Read (bus z) (pc z) \<notin> set (plain_opcodes @ control_opcodes @ prefix_opcodes)"
  shows "Step T z = (Some (Errorf_invalid_instruction (Read (bus z) (pc z)) (pc z)), z)"
  using assms unfolding plain_opcodes_def control_opcodes_def prefix_opcodes_def
  by (simp add: Step_def Let_def)

lemma unknown_second_dd:
  assumes "Read (bus z) (pc z) = 0xdd" and "Read (bus z) (pc z + 1) \<notin> set index_opcodes"
  shows "Step T z = (Some ErrInvalidInstruction, z)"
  using assms unfolding index_opcodes_def by (simp add: Step_def Let_def)

lemma unknown_second_fd:
  assumes "Read (bus z) (pc z) = 0xfd" and "Read (bus z) (pc z + 1) \<notin> set index_opcodes"
  shows "Step T z = (Some ErrInvalidInstruction, z)"
  using assms unfolding index_opcodes_def by (simp add: Step_def Let_def)

lemma unknown_second_ed:
  assumes "Read (bus z) (pc z) = 0xed" and "Read (bus z) (pc z + 1) \<noteq> 0x44"
  shows "Step T z = (Some ErrInvalidInstruction, z)"
  using assms by (simp add: Step_def Let_def)

lemma cold_Read [simp]:
  "Read (bus (cold prog)) a = (if unat a < length prog then prog ! unat a else 0)"
  by (simp add: cold_def Read_def)

lemma cold_fields [simp]:
  "pc (cold prog) = 0" "sp (cold prog) = 0" "af (cold prog) = 0" "bc (cold prog) = 0"
  "totalCycles (cold prog) = 0"
  by (simp_all add: cold_def)

lemma push_step:
  assumes "p \<in> set stack_pairs" and "fetches (bus z) (pc z) (push_code p)"
  shows "fst (Step T z) = None \<and>
         snd (Step T z) = genericPostInstruction (descriptor T z)
           (z\<lparr>sp := sp z - 2,
               bus := Write (Write (bus z) (sp z - 1) (high (load p z))) (sp z - 2) (low (load p z))\<rparr>)"
  using assms unfolding stack_pairs_def
  apply (simp only: list.set insert_iff empty_iff)
  apply (elim disjE FalseE)
  apply (simp_all add: Step_def Let_def descriptor_def high_def low_def genericPostInstruction_def)
  done

lemma pop_step:
  assumes "p \<in> set stack_pairs" and "fetches (bus z) (pc z) (pop_code p)"
  shows "fst (Step T z) = None \<and>
         snd (Step T z) = genericPostInstruction (descriptor T z)
           (store p (word16 (Read (bus z) (sp z + 1)) (Read (bus z) (sp z))) (z\<lparr>sp := sp z + 2\<rparr>))"
  using assms unfolding stack_pairs_def
  apply (simp only: list.set insert_iff empty_iff)
  apply (elim disjE FalseE)
  apply (simp_all add: Step_def Let_def descriptor_def genericPostInstruction_def pop_join)
  done

lemma store_keeps:
  assumes "p \<in> set stack_pairs"
  shows "bus (store p v z) = bus z \<and> pc (store p v z) = pc z \<and> sp (store p v z) = sp z"
  by (cases p) (use assms in \<open>simp_all add: stack_pairs_def\<close>)

lemma load_after_pop:
  assumes "p \<in> set stack_pairs"
  shows "load p (genericPostInstruction oc (store p w z)) = w \<and>
         sp (genericPostInstruction oc (store p w z)) = sp z"
  by (cases p) (use assms in \<open>simp_all add: stack_pairs_def genericPostInstruction_def\<close>)

lemma call_step:
  assumes "Read (bus z) (pc z) = 0xcd"
  shows "Step T z =
    (None,
     z\<lparr>sp := sp z - 2,
       bus := Write (Write (bus z) (sp z - 1) (high (pc z + noBytes (opcodes T 0xcd))))
                (sp z - 2) (low (pc z + noBytes (opcodes T 0xcd))),
       pc := imm16 (Write (Write (bus z) (sp z - 1) (high (pc z + noBytes (opcodes T 0xcd))))
                (sp z - 2) (low (pc z + noBytes (opcodes T 0xcd)))) (pc z),
       totalCycles := totalCycles z + noCycles (opcodes T 0xcd)\<rparr>)"
  using assms by (simp add: Step_def Let_def high_def low_def imm16_def)

lemma ret_step:
  assumes "Read (bus z) (pc z) = 0xc9"
  shows "Step T z =
    (None,
     z\<lparr>sp := sp z + 2,
       totalCycles := totalCycles z + noCycles (opcodes T 0xc9),
       pc := word16 (Read (bus z) (sp z + 1)) (Read (bus z) (sp z))\<rparr>)"
  using assms by (simp add: Step_def Let_def ret_join)

lemma empty_mnemonic_result:
  assumes "mnemonic (resolved T z address) = []"
    and "DisassembleComponents T z address = Inr (m, d, s, n)"
  shows "m = ''INVALID'' \<and> n = 1"
  using assms
  by (auto simp: DisassembleComponents_def resolved_def Let_def then_do_def split: sum.splits)

lemma jp_cc_step:
  assumes "Read (bus z) (pc z) = opc" and "opc \<in> set jp_cc_opcodes"
  shows "Step T z =
     (if flag_condition opc (af z)
      then (None, z\<lparr>pc := imm16 (bus z) (pc z),
                     totalCycles := totalCycles z + noCycles (opcodes T opc)\<rparr>)
      else (None, z\<lparr>totalCycles := totalCycles z + noCycles (opcodes T opc),
                     pc := pc z + noBytes (opcodes T opc)\<rparr>))"
  using assms unfolding jp_cc_opcodes_def
  apply (simp only: list.set insert_iff empty_iff)
  apply (elim disjE FalseE)
  apply (simp_all add: Step_def Let_def genericPostInstruction_def flag_condition_def imm16_def
      flag_tests)
  done

lemma jr_z_step:
  assumes "Read (bus z) (pc z) = 0x28"
  shows "Step T z =
     (if flag_condition 0x28 (af z)
      then (None, z\<lparr>pc := pc z + 2 + scast (Read (bus z) (pc z + 1)),
                     totalCycles := totalCycles z + noCycles (opcodes T 0x28)\<rparr>)
      else (None, z\<lparr>totalCycles := totalCycles z + 7 + noCycles (opcodes T 0x28),
                     pc := pc z + noBytes (opcodes T 0x28)\<rparr>))"
  using assms
  by (simp add: Step_def Let_def genericPostInstruction_def flag_condition_def flag_tests)

lemma ret_z_step:
  assumes "Read (bus z) (pc z) = 0xc8"
  shows "Step T z =
     (if flag_condition 0xc8 (af z)
      then (None, z\<lparr>sp := sp z + 2, totalCycles := totalCycles z + 11,
                     pc := word16 (Read (bus z) (sp z + 1)) (Read (bus z) (sp z))\<rparr>)
      else (None, z\<lparr>totalCycles := totalCycles z + noCycles (opcodes T 0xc8),
                     pc := pc z + noBytes (opcodes T 0xc8)\<rparr>))"
  using assms
  by (simp add: Step_def Let_def genericPostInstruction_def flag_condition_def flag_tests ret_join)

section \<open>The generic post-instruction step\<close>

text \<open>
  C1. For every opcode that does not alter control flow (the plain first bytes, and the
  handled second bytes of the three prefix pages), \<open>Step\<close> returns without error, advances
  the program counter by exactly the byte length of the descriptor and adds exactly the
  cycle count of the descriptor to the running total (both with the wrap-around of their
  width).
\<close>

theorem step_generic_post_instruction:
  assumes "non_control_transfer z"
  shows "fst (Step T z) = None \<and>
         pc (snd (Step T z)) = pc z + noBytes (descriptor T z) \<and>
         totalCycles (snd (Step T z)) = totalCycles z + noCycles (descriptor T z)"
proof -
  let ?opc = "Read (bus z) (pc z)" and ?byte2 = "Read (bus z) (pc z + 1)"
  from assms consider
    (plain) "?opc \<in> set plain_opcodes"
    | (dd) "?opc = 0xdd" "?byte2 \<in> set index_opcodes"
    | (ed) "?opc = 0xed" "?byte2 = 0x44"
    | (fd) "?opc = 0xfd" "?byte2 \<in> set index_opcodes"
    unfolding non_control_transfer_def Let_def by blast
  then show ?thesis
  proof cases
    case plain
    then have "?opc \<notin> set prefix_opcodes"
      unfolding plain_opcodes_def prefix_opcodes_def by auto
    then have "descriptor T z = opcodes T ?opc"
      by (simp add: descriptor_def prefix_opcodes_def Let_def)
    with plain_step [OF plain, of T] show ?thesis by simp
  next
    case dd
    then have "descriptor T z = opcodesDD T ?byte2"
      by (simp add: descriptor_def Let_def)
    with index_step_dd [OF dd, of T] show ?thesis by simp
  next
    case ed
    then have "descriptor T z = opcodesED T 0x44"
      by (simp add: descriptor_def Let_def)
    with neg_step [OF ed, of T] show ?thesis by simp
  next
    case fd
    then have "descriptor T z = opcodesFD T ?byte2"
      by (simp add: descriptor_def Let_def)
    with index_step_fd [OF fd, of T] show ?thesis by simp
  qed
qed

theorem step_generic_post_instruction_witness:
  "non_control_transfer (cold [0x01, 0x34, 0x12]) \<and>
   fst (Step example_tables (cold [0x01, 0x34, 0x12])) = None \<and>
   pc (snd (Step example_tables (cold [0x01, 0x34, 0x12]))) = 3 \<and>
   totalCycles (snd (Step example_tables (cold [0x01, 0x34, 0x12]))) = 10"
proof -
  have h: "non_control_transfer (cold [0x01, 0x34, 0x12])"
    by (simp add: non_control_transfer_def plain_opcodes_def)
  have d: "descriptor example_tables (cold [0x01, 0x34, 0x12]) = example_descriptor"
    by (simp add: descriptor_def example_tables_def)
  show ?thesis
    using h step_generic_post_instruction [OF h, of example_tables]
    by (simp add: d example_descriptor_def)
qed

section \<open>The 8-bit increments\<close>

text \<open>
  C2, as the code has it. Incrementing the high half of any register pair (\<open>inc8H\<close>), or
  the low half of a pair other than \<^verbatim>\<open>af\<close> (\<open>inc8L\<close>), from \<^verbatim>\<open>0x7f\<close> leaves the zero
  flag clear, sets the sign flag (the result \<^verbatim>\<open>0x80\<close> is negative), sets half-carry,
  sets overflow (the parity bit), clears add/subtract and leaves the carry flag as it
  was; incrementing from \<^verbatim>\<open>0xff\<close> sets the zero flag. Opcode \<^verbatim>\<open>0x04\<close> (\<^verbatim>\<open>inc b\<close>)
  increments the high half of \<^verbatim>\<open>bc\<close> and leaves exactly the flags of \<open>inc8H\<close>.
\<close>

theorem inc8_flags:
  "(high (load p z) = 0x7f \<longrightarrow>
      \<not> flag_set (af (inc8H p z)) zero \<and> flag_set (af (inc8H p z)) sign \<and>
      flag_set (af (inc8H p z)) halfCarry \<and> flag_set (af (inc8H p z)) parity \<and>
      \<not> flag_set (af (inc8H p z)) addsub \<and>
      flag_set (af (inc8H p z)) carry = flag_set (af z) carry) \<and>
   (high (load p z) = 0xff \<longrightarrow> flag_set (af (inc8H p z)) zero) \<and>
   (p \<noteq> AF \<and> low (load p z) = 0x7f \<longrightarrow>
      \<not> flag_set (af (inc8L p z)) zero \<and> flag_set (af (inc8L p z)) sign \<and>
      flag_set (af (inc8L p z)) halfCarry \<and> flag_set (af (inc8L p z)) parity \<and>
      \<not> flag_set (af (inc8L p z)) addsub \<and>
      flag_set (af (inc8L p z)) carry = flag_set (af z) carry) \<and>
   (low (load p z) = 0xff \<longrightarrow> flag_set (af (inc8L p z)) zero) \<and>
   (Read (bus z) (pc z) = 0x04 \<longrightarrow>
      af (snd (Step T z)) = af (inc8H BC z) \<and>
      high (bc (snd (Step T z))) = high (bc z) + 1 \<and>
      low (bc (snd (Step T z))) = low (bc z))"
proof -
  have a: "high (load p z) = 0x7f \<longrightarrow>
      \<not> flag_set (af (inc8H p z)) zero \<and> flag_set (af (inc8H p z)) sign \<and>
      flag_set (af (inc8H p z)) halfCarry \<and> flag_set (af (inc8H p z)) parity \<and>
      \<not> flag_set (af (inc8H p z)) addsub \<and>
      flag_set (af (inc8H p z)) carry = flag_set (af z) carry"
    using inc8H_7f [of p z] by (simp add: flag_tests) (simp add: flag_set_def)
  have b: "high (load p z) = 0xff \<longrightarrow> flag_set (af (inc8H p z)) zero"
    using inc8H_ff [of p z] by (simp add: flag_tests)
  have c: "p \<noteq> AF \<and> low (load p z) = 0x7f \<longrightarrow>
      \<not> flag_set (af (inc8L p z)) zero \<and> flag_set (af (inc8L p z)) sign \<and>
      flag_set (af (inc8L p z)) halfCarry \<and> flag_set (af (inc8L p z)) parity \<and>
      \<not> flag_set (af (inc8L p z)) addsub \<and>
      flag_set (af (inc8L p z)) carry = flag_set (af z) carry"
    using inc8L_7f [of p z] by (simp add: flag_tests) (simp add: flag_set_def)
  have d: "low (load p z) = 0xff \<longrightarrow> flag_set (af (inc8L p z)) zero"
    using inc8L_ff [of p z] by (simp add: flag_tests)
  have e: "Read (bus z) (pc z) = 0x04 \<longrightarrow>
      af (snd (Step T z)) = af (inc8H BC z) \<and>
      high (bc (snd (Step T z))) = high (bc z) + 1 \<and>
      low (bc (snd (Step T z))) = low (bc z)"
    using inc_b_step [of z T] by blast
  from a b c d e show ?thesis
    by blast
qed

theorem inc8_flags_witness:
  "high (load BC inc_b_machine) = 0x7f \<and>
   Read (bus inc_b_machine) (pc inc_b_machine) = 0x04 \<and>
   \<not> flag_set (af (snd (Step example_tables inc_b_machine))) zero \<and>
   flag_set (af (snd (Step example_tables inc_b_machine))) sign \<and>
   flag_set (af (snd (Step example_tables inc_b_machine))) halfCarry \<and>
   flag_set (af (snd (Step example_tables inc_b_machine))) parity \<and>
   \<not> flag_set (af (snd (Step example_tables inc_b_machine))) addsub \<and>
   flag_set (af (snd (Step example_tables inc_b_machine))) carry \<and>
   high (bc (snd (Step example_tables inc_b_machine))) = 0x80"
proof -
  have h: "high (load BC inc_b_machine) = 0x7f"
    by (simp add: inc_b_machine_def high_def)
  have r: "Read (bus inc_b_machine) (pc inc_b_machine) = 0x04"
    by (simp add: inc_b_machine_def cold_def Read_def)
  have f: "flag_set (af inc_b_machine) carry"
    by (simp add: inc_b_machine_def flag_set_def carry_def)
  have b: "high (bc inc_b_machine) = 0x7f"
    by (simp add: inc_b_machine_def high_def)
  show ?thesis
    using h r f b inc8_flags [of BC inc_b_machine example_tables]
    by simp
qed

text \<open>
  The claim as stated fails on the sign flag: \<^verbatim>\<open>inc b\<close> from \<^verbatim>\<open>0x7f\<close> gives \<^verbatim>\<open>0x80\<close>,
  and the sign flag is set, not clear.
\<close>

theorem inc8_flags_counterexample:
  "flag_set (af (snd (Step example_tables inc_b_machine))) sign"
  by (simp add: inc_b_machine_def cold_def Read_def Step_def genericPostInstruction_def
      inc8_defs flag_defs flag_set_def)

section \<open>Push and pop\<close>

text \<open>
  C3. For every register pair that has a push and a pop (\<^verbatim>\<open>bc\<close>, \<^verbatim>\<open>de\<close>, \<^verbatim>\<open>hl\<close>,
  \<^verbatim>\<open>af\<close>, \<^verbatim>\<open>ix\<close>, \<^verbatim>\<open>iy\<close>), any value of the pair and any stack pointer: a push of
  the pair writes the high byte at \<open>sp - 1\<close> and the low byte at \<open>sp - 2\<close> and leaves the
  stack pointer at \<open>sp - 2\<close>; when the instruction executed next is the corresponding pop,
  it reads the low byte at the stack pointer and the high byte one above it, restores the
  pair to its original 16-bit value (whatever the pair held in between) and, having
  incremented twice, returns the stack pointer to its value before the push.
\<close>

theorem push_pop_restores:
  assumes "p \<in> set stack_pairs"
    and "fetches (bus z) (pc z) (push_code p)"
    and "fetches (bus (snd (Step T z))) (pc (snd (Step T z))) (pop_code p)"
  shows "fst (Step T z) = None \<and>
         sp (snd (Step T z)) = sp z - 2 \<and>
         Read (bus (snd (Step T z))) (sp z - 1) = high (load p z) \<and>
         Read (bus (snd (Step T z))) (sp z - 2) = low (load p z) \<and>
         fst (Step T (store p v (snd (Step T z)))) = None \<and>
         load p (snd (Step T (store p v (snd (Step T z))))) =
           word16 (Read (bus (snd (Step T z))) (sp (snd (Step T z)) + 1))
             (Read (bus (snd (Step T z))) (sp (snd (Step T z)))) \<and>
         load p (snd (Step T (store p v (snd (Step T z))))) = load p z \<and>
         sp (snd (Step T (store p v (snd (Step T z))))) = sp z"
proof -
  let ?z1 = "snd (Step T z)"
  let ?z1' = "store p v ?z1"
  note push = push_step [OF assms(1,2), of T]
  have sp1: "sp ?z1 = sp z - 2"
    using push by (simp add: genericPostInstruction_def)
  have hi: "Read (bus ?z1) (sp z - 1) = high (load p z)"
    using push by (simp add: genericPostInstruction_def)
  have lo: "Read (bus ?z1) (sp z - 2) = low (load p z)"
    using push by (simp add: genericPostInstruction_def)
  have "fetches (bus ?z1') (pc ?z1') (pop_code p)"
    using assms(3) by (simp add: store_keeps [OF assms(1)])
  note pop = pop_step [OF assms(1) this, of T]
  have sp1': "sp ?z1' = sp z - 2" and bus1': "bus ?z1' = bus ?z1"
    using sp1 by (simp_all add: store_keeps [OF assms(1)])
  have rd: "load p (snd (Step T ?z1')) = word16 (Read (bus ?z1) (sp z - 1)) (Read (bus ?z1) (sp z - 2))"
    using pop by (simp add: load_after_pop [OF assms(1)] sp1' bus1')
  then have reg: "load p (snd (Step T ?z1')) = load p z"
    by (simp add: hi lo)
  have rd': "load p (snd (Step T ?z1')) =
      word16 (Read (bus ?z1) (sp ?z1 + 1)) (Read (bus ?z1) (sp ?z1))"
    using rd by (simp add: sp1)
  have sp2: "sp (snd (Step T ?z1')) = sp z"
    using pop by (simp add: load_after_pop [OF assms(1)] sp1')
  from push pop sp1 hi lo rd' reg sp2 show ?thesis
    by blast
qed

theorem push_pop_restores_witness:
  "BC \<in> set stack_pairs \<and>
   fetches (bus push_pop_machine) (pc push_pop_machine) (push_code BC) \<and>
   fetches (bus (snd (Step example_tables push_pop_machine)))
     (pc (snd (Step example_tables push_pop_machine))) (pop_code BC) \<and>
   Read (bus (snd (Step example_tables push_pop_machine))) 0x00ff = 0x12 \<and>
   Read (bus (snd (Step example_tables push_pop_machine))) 0x00fe = 0x34 \<and>
   bc (snd (Step example_tables ((snd (Step example_tables push_pop_machine))\<lparr>bc := 0\<rparr>))) = 0x1234 \<and>
   sp (snd (Step example_tables ((snd (Step example_tables push_pop_machine))\<lparr>bc := 0\<rparr>))) = 0x0100"
proof -
  have a: "BC \<in> set stack_pairs"
    by (simp add: stack_pairs_def)
  have b: "fetches (bus push_pop_machine) (pc push_pop_machine) (push_code BC)"
    by (simp add: push_pop_machine_def cold_def Read_def)
  have c: "fetches (bus (snd (Step example_tables push_pop_machine)))
             (pc (snd (Step example_tables push_pop_machine))) (pop_code BC)"
    by (simp add: push_pop_machine_def cold_def Read_def Write_def Step_def Let_def
        genericPostInstruction_def example_tables_def example_descriptor_def)
  show ?thesis
    using a b c push_pop_restores [OF a b c, of 0]
    by (simp add: push_pop_machine_def cold_def high_def low_def word16_def)
qed

section \<open>Call and return\<close>

text \<open>
  C4. A call (\<^verbatim>\<open>0xcd\<close>) pushes the address of the instruction that follows it, the
  program counter of the call plus the byte length of its descriptor, and then jumps to
  its operand; when the instruction executed next is a return (\<^verbatim>\<open>0xc9\<close>), the return
  pops that address into the program counter, so the program counter is at the
  instruction after the call and the stack pointer is what it was before the call.
\<close>

theorem call_ret_returns:
  assumes "Read (bus z) (pc z) = 0xcd"
    and "Read (bus (snd (Step T z))) (pc (snd (Step T z))) = 0xc9"
  shows "fst (Step T z) = None \<and>
         sp (snd (Step T z)) = sp z - 2 \<and>
         Read (bus (snd (Step T z))) (sp z - 1) = high (pc z + noBytes (opcodes T 0xcd)) \<and>
         Read (bus (snd (Step T z))) (sp z - 2) = low (pc z + noBytes (opcodes T 0xcd)) \<and>
         pc (snd (Step T z)) = imm16 (bus (snd (Step T z))) (pc z) \<and>
         fst (Step T (snd (Step T z))) = None \<and>
         pc (snd (Step T (snd (Step T z)))) = pc z + noBytes (opcodes T 0xcd) \<and>
         sp (snd (Step T (snd (Step T z)))) = sp z"
proof -
  let ?z1 = "snd (Step T z)"
  note call = call_step [OF assms(1), of T]
  note ret = ret_step [OF assms(2), of T]
  have sp1: "sp ?z1 = sp z - 2"
    using call by simp
  have hi: "Read (bus ?z1) (sp z - 1) = high (pc z + noBytes (opcodes T 0xcd))"
    using call by simp
  have lo: "Read (bus ?z1) (sp z - 2) = low (pc z + noBytes (opcodes T 0xcd))"
    using call by simp
  have pc1: "pc ?z1 = imm16 (bus ?z1) (pc z)"
    using call by simp
  have "pc (snd (Step T ?z1)) = word16 (Read (bus ?z1) (sp z - 1)) (Read (bus ?z1) (sp z - 2))"
    using ret by (simp add: sp1)
  then have pc2: "pc (snd (Step T ?z1)) = pc z + noBytes (opcodes T 0xcd)"
    by (simp add: hi lo)
  have sp2: "sp (snd (Step T ?z1)) = sp z"
    using ret by (simp add: sp1)
  from call ret sp1 hi lo pc1 pc2 sp2 show ?thesis
    by simp
qed

theorem call_ret_returns_witness:
  "Read (bus call_ret_machine) (pc call_ret_machine) = 0xcd \<and>
   Read (bus (snd (Step example_tables call_ret_machine)))
     (pc (snd (Step example_tables call_ret_machine))) = 0xc9 \<and>
   pc (snd (Step example_tables call_ret_machine)) = 0x0005 \<and>
   pc (snd (Step example_tables (snd (Step example_tables call_ret_machine)))) = 0x0003 \<and>
   sp (snd (Step example_tables (snd (Step example_tables call_ret_machine)))) = 0x0100"
proof -
  have a: "Read (bus call_ret_machine) (pc call_ret_machine) = 0xcd"
    by (simp add: call_ret_machine_def cold_def Read_def)
  have s: "pc (snd (Step example_tables call_ret_machine)) = 0x0005 \<and>
           Read (bus (snd (Step example_tables call_ret_machine))) 0x0005 = 0xc9"
    by (simp add: call_ret_machine_def cold_def Read_def Write_def Step_def Let_def
        example_tables_def example_descriptor_def)
  then have b: "Read (bus (snd (Step example_tables call_ret_machine)))
             (pc (snd (Step example_tables call_ret_machine))) = 0xc9"
    by simp
  show ?thesis
    using a b s call_ret_returns [OF a b]
    by (simp add: call_ret_machine_def cold_def example_tables_def example_descriptor_def)
qed

section \<open>Halt\<close>

text \<open>
  C5. When \<open>Step\<close> reads the halt opcode \<^verbatim>\<open>0x76\<close> it returns the Halt signal, adds the
  cycle count of the halt descriptor to the cycle counter once, and changes nothing else:
  the program counter stays at the halt instruction.
\<close>

theorem step_halt:
  assumes "Read (bus z) (pc z) = 0x76"
  shows "Step T z = (Some ErrHalt, z\<lparr>totalCycles := totalCycles z + noCycles (opcodes T 0x76)\<rparr>) \<and>
         pc (snd (Step T z)) = pc z"
  using assms by (simp add: Step_def Let_def)

theorem step_halt_witness:
  "Read (bus (cold [0x76])) (pc (cold [0x76])) = 0x76 \<and>
   fst (Step example_tables (cold [0x76])) = Some ErrHalt \<and>
   totalCycles (snd (Step example_tables (cold [0x76]))) = 10 \<and>
   pc (snd (Step example_tables (cold [0x76]))) = 0"
proof -
  have h: "Read (bus (cold [0x76])) (pc (cold [0x76])) = 0x76"
    by simp
  show ?thesis
    using h step_halt [OF h, of example_tables]
    by (simp add: example_tables_def example_descriptor_def)
qed

section \<open>Decode failures\<close>

text \<open>
  C6, as the code has it. An unknown first byte on the base page makes \<open>Step\<close> return the
  formatted invalid-instruction error, which carries the opcode byte and the program
  counter. An unknown second byte in one of the prefix pages \<^verbatim>\<open>0xdd\<close>, \<^verbatim>\<open>0xed\<close>,
  \<^verbatim>\<open>0xfd\<close> makes it return the sentinel \<^verbatim>\<open>ErrInvalidInstruction\<close>, which carries
  neither.
\<close>

theorem step_decode_failure:
  "(Read (bus z) (pc z) \<notin> set (plain_opcodes @ control_opcodes @ prefix_opcodes) \<longrightarrow>
      Step T z = (Some (Errorf_invalid_instruction (Read (bus z) (pc z)) (pc z)), z)) \<and>
   (Read (bus z) (pc z) = 0xdd \<and> Read (bus z) (pc z + 1) \<notin> set index_opcodes \<longrightarrow>
      Step T z = (Some ErrInvalidInstruction, z)) \<and>
   (Read (bus z) (pc z) = 0xed \<and> Read (bus z) (pc z + 1) \<noteq> 0x44 \<longrightarrow>
      Step T z = (Some ErrInvalidInstruction, z)) \<and>
   (Read (bus z) (pc z) = 0xfd \<and> Read (bus z) (pc z + 1) \<notin> set index_opcodes \<longrightarrow>
      Step T z = (Some ErrInvalidInstruction, z))"
  using unknown_first [of z T] unknown_second_dd [of z T]
    unknown_second_ed [of z T] unknown_second_fd [of z T]
  by blast

theorem step_decode_failure_witness:
  "Step example_tables (cold [0x05]) = (Some (Errorf_invalid_instruction 0x05 0), cold [0x05]) \<and>
   Step example_tables (cold [0xdd, 0x00]) = (Some ErrInvalidInstruction, cold [0xdd, 0x00]) \<and>
   Step example_tables (cold [0xed, 0x00]) = (Some ErrInvalidInstruction, cold [0xed, 0x00]) \<and>
   Step example_tables (cold [0xfd, 0x00]) = (Some ErrInvalidInstruction, cold [0xfd, 0x00])"
  using step_decode_failure [of "cold [0x05]" example_tables]
    step_decode_failure [of "cold [0xdd, 0x00]" example_tables]
    step_decode_failure [of "cold [0xed, 0x00]" example_tables]
    step_decode_failure [of "cold [0xfd, 0x00]" example_tables]
  by (simp add: plain_opcodes_def control_opcodes_def prefix_opcodes_def index_opcodes_def)

text \<open>
  The claim as stated fails in a prefix page: with \<^verbatim>\<open>0xdd 0x00\<close> at address 0 the error
  returned is the bare sentinel, which carries no opcode byte and no address.
\<close>

theorem step_decode_failure_counterexample:
  "map_option carried (fst (Step example_tables (cold [0xdd, 0x00]))) = Some None"
  by (simp add: Step_def Let_def)

section \<open>Conditional jumps\<close>

text \<open>
  C7, as the code has it. Every conditional jump opcode takes the branch iff its flag
  condition holds at entry, and when the condition is false \<open>Step\<close> advances the program
  counter by the byte length of the descriptor. The eight \<^verbatim>\<open>jp cc\<close> opcodes add the cycle
  count of the descriptor on both paths, taken and not taken. \<^verbatim>\<open>jr z\<close> adds the cycle
  count of the descriptor when taken and a different count when not taken. \<^verbatim>\<open>ret z\<close>
  adds 11 cycles when taken and the cycle count of the descriptor when not taken.
\<close>

theorem conditional_jumps:
  "(Read (bus z) (pc z) = opc \<and> opc \<in> set jp_cc_opcodes \<longrightarrow>
      fst (Step T z) = None \<and>
      (flag_condition opc (af z) \<longrightarrow>
         pc (snd (Step T z)) = imm16 (bus z) (pc z) \<and>
         totalCycles (snd (Step T z)) = totalCycles z + noCycles (opcodes T opc)) \<and>
      (\<not> flag_condition opc (af z) \<longrightarrow>
         pc (snd (Step T z)) = pc z + noBytes (opcodes T opc) \<and>
         totalCycles (snd (Step T z)) = totalCycles z + noCycles (opcodes T opc))) \<and>
   (Read (bus z) (pc z) = 0x28 \<longrightarrow>
      fst (Step T z) = None \<and>
      (flag_condition 0x28 (af z) \<longrightarrow>
         pc (snd (Step T z)) = pc z + 2 + scast (Read (bus z) (pc z + 1)) \<and>
         totalCycles (snd (Step T z)) = totalCycles z + noCycles (opcodes T 0x28)) \<and>
      (\<not> flag_condition 0x28 (af z) \<longrightarrow>
         pc (snd (Step T z)) = pc z + noBytes (opcodes T 0x28) \<and>
         totalCycles (snd (Step T z)) \<noteq> totalCycles z + noCycles (opcodes T 0x28))) \<and>
   (Read (bus z) (pc z) = 0xc8 \<longrightarrow>
      fst (Step T z) = None \<and>
      (flag_condition 0xc8 (af z) \<longrightarrow>
         pc (snd (Step T z)) = word16 (Read (bus z) (sp z + 1)) (Read (bus z) (sp z)) \<and>
         sp (snd (Step T z)) = sp z + 2 \<and>
         totalCycles (snd (Step T z)) = totalCycles z + 11) \<and>
      (\<not> flag_condition 0xc8 (af z) \<longrightarrow>
         pc (snd (Step T z)) = pc z + noBytes (opcodes T 0xc8) \<and>
         sp (snd (Step T z)) = sp z \<and>
         totalCycles (snd (Step T z)) = totalCycles z + noCycles (opcodes T 0xc8)))"
proof (intro conjI impI)
  assume h: "Read (bus z) (pc z) = opc \<and> opc \<in> set jp_cc_opcodes"
  then have s: "Step T z =
     (if flag_condition opc (af z)
      then (None, z\<lparr>pc := imm16 (bus z) (pc z),
                     totalCycles := totalCycles z + noCycles (opcodes T opc)\<rparr>)
      else (None, z\<lparr>totalCycles := totalCycles z + noCycles (opcodes T opc),
                     pc := pc z + noBytes (opcodes T opc)\<rparr>))"
    using jp_cc_step [of z opc T] by blast
  show "fst (Step T z) = None"
    by (simp add: s)
  { assume "flag_condition opc (af z)"
    then show "pc (snd (Step T z)) = imm16 (bus z) (pc z)"
      and "totalCycles (snd (Step T z)) = totalCycles z + noCycles (opcodes T opc)"
      by (simp_all add: s) }
  { assume "\<not> flag_condition opc (af z)"
    then show "pc (snd (Step T z)) = pc z + noBytes (opcodes T opc)"
      and "totalCycles (snd (Step T z)) = totalCycles z + noCycles (opcodes T opc)"
      by (simp_all add: s) }
next
  assume h: "Read (bus z) (pc z) = 0x28"
  note s = jr_z_step [OF h, of T]
  show "fst (Step T z) = None"
    by (simp add: s)
  { assume "flag_condition 0x28 (af z)"
    then show "pc (snd (Step T z)) = pc z + 2 + scast (Read (bus z) (pc z + 1))"
      and "totalCycles (snd (Step T z)) = totalCycles z + noCycles (opcodes T 0x28)"
      by (simp_all add: s) }
  { assume "\<not> flag_condition 0x28 (af z)"
    then show "pc (snd (Step T z)) = pc z + noBytes (opcodes T 0x28)"
      and "totalCycles (snd (Step T z)) \<noteq> totalCycles z + noCycles (opcodes T 0x28)"
      by (simp_all add: s) }
next
  assume h: "Read (bus z) (pc z) = 0xc8"
  note s = ret_z_step [OF h, of T]
  show "fst (Step T z) = None"
    by (simp add: s)
  { assume "flag_condition 0xc8 (af z)"
    then show "pc (snd (Step T z)) = word16 (Read (bus z) (sp z + 1)) (Read (bus z) (sp z))"
      and "sp (snd (Step T z)) = sp z + 2"
      and "totalCycles (snd (Step T z)) = totalCycles z + 11"
      by (simp_all add: s) }
  { assume "\<not> flag_condition 0xc8 (af z)"
    then show "pc (snd (Step T z)) = pc z + noBytes (opcodes T 0xc8)"
      and "sp (snd (Step T z)) = sp z"
      and "totalCycles (snd (Step T z)) = totalCycles z + noCycles (opcodes T 0xc8)"
      by (simp_all add: s) }
qed

theorem conditional_jumps_witness:
  "flag_condition 0xc2 (af jp_nz_machine) \<and>
   pc (snd (Step example_tables jp_nz_machine)) = 0x0010 \<and>
   \<not> flag_condition 0xc2 (af jp_nz_machine_zero_set) \<and>
   pc (snd (Step example_tables jp_nz_machine_zero_set)) = 0x0003 \<and>
   \<not> flag_condition 0x28 (af (cold [0x28, 0x05])) \<and>
   pc (snd (Step example_tables (cold [0x28, 0x05]))) = 0x0003 \<and>
   totalCycles (snd (Step example_tables (cold [0x28, 0x05]))) \<noteq> 10 \<and>
   \<not> flag_condition 0xc8 (af (cold [0xc8])) \<and>
   pc (snd (Step example_tables (cold [0xc8]))) = 0x0003"
  using conditional_jumps [of jp_nz_machine "0xc2" example_tables]
    conditional_jumps [of jp_nz_machine_zero_set "0xc2" example_tables]
    conditional_jumps [of "cold [0x28, 0x05]" "0xc2" example_tables]
    conditional_jumps [of "cold [0xc8]" "0xc2" example_tables]
  by (simp add: jp_nz_machine_def jp_nz_machine_zero_set_def jp_cc_opcodes_def
      flag_condition_def flag_set_def zero_def imm16_def cold_def Read_def
      example_tables_def example_descriptor_def)

text \<open>
  The claim as stated fails for \<^verbatim>\<open>jp nz\<close>: taken (zero flag clear) and not taken (zero
  flag set), the step adds the same 10 cycles of the descriptor.
\<close>

theorem conditional_jumps_counterexample:
  "pc (snd (Step example_tables jp_nz_machine)) = 0x0010 \<and>
   totalCycles (snd (Step example_tables jp_nz_machine)) = 10 \<and>
   pc (snd (Step example_tables jp_nz_machine_zero_set)) = 0x0003 \<and>
   totalCycles (snd (Step example_tables jp_nz_machine_zero_set)) = 10"
  by (simp add: jp_nz_machine_def jp_nz_machine_zero_set_def zero_def cold_def Read_def
      Step_def Let_def genericPostInstruction_def example_tables_def example_descriptor_def)

section \<open>Loads and the flag byte\<close>

text \<open>The other loads and exchanges leave the flag byte as it was.\<close>

lemma other_loads_keep_flags:
  assumes "Read (bus z) (pc z) \<in> set other_load_opcodes"
  shows "flag_byte (snd (Step T z)) = flag_byte z"
  using assms unfolding other_load_opcodes_def
  apply (simp only: list.set insert_iff empty_iff)
  apply (elim disjE FalseE)
  apply (simp_all add: Step_def Let_def genericPostInstruction_def flag_byte_def low_of_join)
  done

text \<open>
  C8 does not hold of the code: \<^verbatim>\<open>ld a,(nn)\<close> (opcode \<^verbatim>\<open>0x3a\<close>) assigns the byte it
  read, shifted into the high half, to the whole of \<^verbatim>\<open>z.af\<close>, so after the step the
  flag byte is zero whatever it was before.
\<close>

theorem ld_a_nn_clears_flags:
  assumes "Read (bus z) (pc z) = 0x3a"
  shows "flag_byte (snd (Step T z)) = 0"
  using assms
  by (simp add: Step_def Let_def genericPostInstruction_def flag_byte_def low_of_high)

theorem ld_a_nn_clears_flags_witness:
  "Read (bus ld_a_nn_machine) (pc ld_a_nn_machine) = 0x3a \<and>
   flag_byte ld_a_nn_machine = 0xff \<and>
   flag_byte (snd (Step example_tables ld_a_nn_machine)) = 0"
proof -
  have h: "Read (bus ld_a_nn_machine) (pc ld_a_nn_machine) = 0x3a"
    by (simp add: ld_a_nn_machine_def cold_def Read_def)
  show ?thesis
    using h ld_a_nn_clears_flags [OF h, of example_tables]
    by (simp add: ld_a_nn_machine_def flag_byte_def)
qed

text \<open>
  \<^verbatim>\<open>neg\<close> (\<^verbatim>\<open>0xed 0x44\<close>) assigns the shifted result to \<^verbatim>\<open>z.af\<close> as well, so the two
  unused flag bits and half-carry are cleared whatever they were.
\<close>

lemma neg_clears_other_flags:
  assumes "Read (bus z) (pc z) = 0xed" and "Read (bus z) (pc z + 1) = 0x44"
  shows "\<not> flag_set (af (snd (Step T z))) unused \<and>
         \<not> flag_set (af (snd (Step T z))) unused2 \<and>
         \<not> flag_set (af (snd (Step T z))) halfCarry"
  using assms
  by (simp add: Step_def Let_def genericPostInstruction_def evalS_def evalZ_def
      flag_set_def flag_algebra high_only_flag)

section \<open>Disassembling a missing table entry\<close>

text \<open>
  C9. For every address whose opcode byte has no table entry (the descriptor resolved for
  it has an empty mnemonic and no operand kinds), \<open>DisassembleComponents\<close> returns the
  mnemonic text \<^verbatim>\<open>INVALID\<close>, empty destination and source operand text, and a byte
  length of exactly 1. The mnemonic \<^verbatim>\<open>INVALID\<close> and the length 1 follow from the empty
  mnemonic alone, so a scan that adds the returned length to the address always advances.
\<close>

theorem disassemble_invalid:
  "(no_table_entry (resolved T z address) \<longrightarrow>
      DisassembleComponents T z address = Inr (''INVALID'', [], [], 1)) \<and>
   (mnemonic (resolved T z address) = [] \<and>
    DisassembleComponents T z address = Inr (m, d, s, n) \<longrightarrow> m = ''INVALID'' \<and> n = 1)"
proof -
  have "no_table_entry (resolved T z address) \<longrightarrow>
      DisassembleComponents T z address = Inr (''INVALID'', [], [], 1)"
    by (simp add: DisassembleComponents_def resolved_def no_table_entry_def Let_def then_do_def)
  with empty_mnemonic_result [of T z address m d s n] show ?thesis
    by blast
qed

theorem disassemble_invalid_witness:
  "no_table_entry (resolved sparse_tables (cold [0x00, 0xff]) 1) \<and>
   DisassembleComponents sparse_tables (cold [0x00, 0xff]) 1 = Inr (''INVALID'', [], [], 1)"
proof -
  have h: "no_table_entry (resolved sparse_tables (cold [0x00, 0xff]) 1)"
    by (simp add: no_table_entry_def resolved_def sparse_tables_def missing_descriptor_def)
  show ?thesis
    using h disassemble_invalid [of sparse_tables "cold [0x00, 0xff]" 1 "''INVALID''" "[]" "[]" 1]
    by simp
qed

text \<open>An opcode with a table entry is rendered with its mnemonic and its own length.\<close>

lemma disassemble_nop:
  "DisassembleComponents sparse_tables (cold [0x00, 0xff]) 0 = Inr (''op'', [], [], 3)"
  by (simp add: DisassembleComponents_def sparse_tables_def example_descriptor_def Let_def
      then_do_def index_def ModeZ80_def cold_def Read_def)

section \<open>A failed step changes nothing\<close>

text \<open>
  C10. Whenever \<open>Step\<close> returns an invalid-instruction error (the formatted one of the base
  page or the sentinel of a prefix page), the whole CPU state, bus included, is exactly
  as it was before the call.
\<close>

theorem step_invalid_atomic:
  assumes "Step T z = (Some e, z')" and "invalid_instruction e"
  shows "z' = z"
proof -
  let ?opc = "Read (bus z) (pc z)" and ?byte2 = "Read (bus z) (pc z + 1)"
  have ne: "fst (Step T z) \<noteq> None" "fst (Step T z) \<noteq> Some ErrHalt"
    using assms by auto
  have not_plain: "?opc \<notin> set plain_opcodes"
    using plain_step [of z T] ne by blast
  have not_control: "?opc \<notin> set control_opcodes"
    using control_step [of z T] ne by blast
  show ?thesis
  proof (cases "?opc \<in> set prefix_opcodes")
    case False
    with not_plain not_control
    have "?opc \<notin> set (plain_opcodes @ control_opcodes @ prefix_opcodes)"
      by simp
    from unknown_first [OF this, of T] assms show ?thesis by simp
  next
    case True
    then consider (dd) "?opc = 0xdd" | (ed) "?opc = 0xed" | (fd) "?opc = 0xfd"
      unfolding prefix_opcodes_def by auto
    then show ?thesis
    proof cases
      case dd
      have "?byte2 \<notin> set index_opcodes"
        using index_step_dd [OF dd, of T] ne by blast
      from unknown_second_dd [OF dd this, of T] assms show ?thesis by simp
    next
      case ed
      have "?byte2 \<noteq> 0x44"
        using neg_step [OF ed, of T] ne by blast
      from unknown_second_ed [OF ed this, of T] assms show ?thesis by simp
    next
      case fd
      have "?byte2 \<notin> set index_opcodes"
        using index_step_fd [OF fd, of T] ne by blast
      from unknown_second_fd [OF fd this, of T] assms show ?thesis by simp
    qed
  qed
qed

theorem step_invalid_atomic_witness:
  "invalid_instruction ErrInvalidInstruction \<and>
   fst (Step example_tables (cold [0xed, 0x45])) = Some ErrInvalidInstruction \<and>
   snd (Step example_tables (cold [0xed, 0x45])) = cold [0xed, 0x45]"
proof -
  have h: "Step example_tables (cold [0xed, 0x45]) =
             (Some ErrInvalidInstruction, snd (Step example_tables (cold [0xed, 0x45])))"
    by (simp add: Step_def Let_def)
  have i: "invalid_instruction ErrInvalidInstruction"
    by simp
  show ?thesis
    using step_invalid_atomic [OF h i] h i by simp
qed

end
